theory Spec2Isabelle
  imports Complex_Main "HOL-Library.Multiset"
begin

section \<open>R values used by the entry point\<close>

text \<open>
  The R sources modelled here are \<^verbatim>\<open>glmnet\<close> and \<^verbatim>\<open>fishnet\<close> (file R/glmnet.R) and
  \<^verbatim>\<open>elnet\<close> (the unnamed source part). An R condition raised by \<^verbatim>\<open>stop\<close>, or by the
  interpreter itself, ends the call: it is the left summand of every result. Warnings
  are collected in a list of messages, in the order they are raised.

  Doubles that take part in arithmetic or are sorted (the response, the weights, the
  offset, the \<open>\<lambda>\<close> sequence) are finite, non-missing values, modelled as the reals they
  stand for; the arithmetic on them is a parameter (\<open>arith\<close> below), so nothing is
  assumed about rounding. Doubles that are only tested and passed on (the entries of \<open>x\<close>, the box
  limits, \<open>alpha\<close>) keep the special values \<^verbatim>\<open>NA\<close>/\<^verbatim>\<open>NaN\<close>, \<^verbatim>\<open>-Inf\<close> and \<^verbatim>\<open>Inf\<close>.
\<close>

datatype rerror = Stop string

datatype rdouble = NA | MInf | Fin real | PInf

text \<open>Comparison of a double with a finite constant: \<^verbatim>\<open>NA\<close> when the double is missing.\<close>

fun rd_gt :: "rdouble \<Rightarrow> real \<Rightarrow> bool option" where
  "rd_gt NA c = None"
| "rd_gt MInf c = Some False"
| "rd_gt (Fin r) c = Some (c < r)"
| "rd_gt PInf c = Some True"

fun rd_lt :: "rdouble \<Rightarrow> real \<Rightarrow> bool option" where
  "rd_lt NA c = None"
| "rd_lt MInf c = Some True"
| "rd_lt (Fin r) c = Some (r < c)"
| "rd_lt PInf c = Some False"

fun is_na :: "rdouble \<Rightarrow> bool" where
  "is_na NA = True"
| "is_na v = False"

fun is_fin :: "rdouble \<Rightarrow> bool" where
  "is_fin (Fin r) = True"
| "is_fin v = False"

text \<open>
  \<^verbatim>\<open>any\<close> on a logical vector with missing entries: \<^verbatim>\<open>TRUE\<close> when some entry is
  \<^verbatim>\<open>TRUE\<close>, otherwise \<^verbatim>\<open>NA\<close> when some entry is \<^verbatim>\<open>NA\<close>, otherwise \<^verbatim>\<open>FALSE\<close>. An
  \<^verbatim>\<open>if\<close> on \<^verbatim>\<open>NA\<close> is an error of the interpreter.
\<close>

definition r_any :: "bool option list \<Rightarrow> bool option" where
  "r_any bs = (if Some True \<in> set bs then Some True
               else if None \<in> set bs then None else Some False)"

definition na_cond :: rerror where
  "na_cond = Stop ''missing value where TRUE/FALSE needed''"

text \<open>
  \<^verbatim>\<open>seq(n)\<close> with one number is \<^verbatim>\<open>1:n\<close>, which counts down when \<open>n < 1\<close>:
  \<^verbatim>\<open>seq(0)\<close> is \<^verbatim>\<open>c(1, 0)\<close>.
\<close>

definition r_seq :: "int \<Rightarrow> int list" where
  "r_seq n = (if 1 \<le> n then [1..n] else rev [n..1])"

text \<open>
  \<^verbatim>\<open>xs[idx]\<close> with a numeric index vector: zeros are dropped; positive indices select,
  and give \<^verbatim>\<open>NA\<close> (the argument \<open>na\<close>) beyond the length; negative indices exclude;
  mixing the two signs is an error.
\<close>

definition r_subscript :: "'a \<Rightarrow> 'a list \<Rightarrow> int list \<Rightarrow> rerror + 'a list" where
  "r_subscript na xs idx =
     (let pos = filter (\<lambda>i. 0 < i) idx; neg = filter (\<lambda>i. i < 0) idx
      in if pos \<noteq> [] \<and> neg \<noteq> [] then Inl (Stop ''only 0s may be mixed with negative subscripts'')
         else if neg \<noteq> [] then
           Inr (map snd (filter (\<lambda>(k, v). - int (Suc k) \<notin> set neg) (enumerate 0 xs)))
         else Inr (map (\<lambda>i. if i \<le> int (length xs) then xs ! (nat i - 1) else na) pos))"

text \<open>
  Arithmetic on two vectors recycles the shorter one; the result is empty when one of
  them is.
\<close>

definition recycle2 :: "('a \<Rightarrow> 'b \<Rightarrow> 'c) \<Rightarrow> 'a list \<Rightarrow> 'b list \<Rightarrow> 'c list" where
  "recycle2 f xs ys =
     (if xs = [] \<or> ys = [] then []
      else map (\<lambda>i. f (xs ! (i mod length xs)) (ys ! (i mod length ys)))
             [0..<max (length xs) (length ys)])"

text \<open>
  The double arithmetic of R is a parameter of the model: \<open>fl_sub\<close>, \<open>fl_mul\<close> and
  \<open>fl_div\<close> give the double that R computes from two finite doubles, and \<open>fl_sum\<close> is
  \<^verbatim>\<open>sum\<close> of a vector of doubles. A double is the real number it stands for; overflow
  and the sign of zero are not modelled. \<open>exact_arith\<close> is the arithmetic without
  rounding: the doubles agree with it wherever every intermediate result is
  representable, as it is on the small integers of the examples below.
\<close>

record arith =
  fl_sub :: "real \<Rightarrow> real \<Rightarrow> real"
  fl_mul :: "real \<Rightarrow> real \<Rightarrow> real"
  fl_div :: "real \<Rightarrow> real \<Rightarrow> real"
  fl_sum :: "real list \<Rightarrow> real"

definition exact_arith :: arith where
  "exact_arith = \<lparr>fl_sub = (\<lambda>u v. u - v), fl_mul = (\<lambda>u v. u * v),
                  fl_div = (\<lambda>u v. u / v), fl_sum = sum_list\<rparr>"

text \<open>
  \<^verbatim>\<open>weighted.mean(x, w)\<close> is \<^verbatim>\<open>sum((x*w)[w != 0])/sum(w)\<close> after a check of the lengths.
  The quotient is not a finite number when the sum of the weights is zero: the result
  is then \<open>None\<close>.
\<close>

definition weighted_mean :: "arith \<Rightarrow> real list \<Rightarrow> real list \<Rightarrow> rerror + real option" where
  "weighted_mean A xs ws =
     (if length ws \<noteq> length xs then Inl (Stop ''x and w must have the same length'')
      else if fl_sum A ws = 0 then Inr None
      else Inr (Some (fl_div A
                        (fl_sum A (map (\<lambda>(x, w). fl_mul A x w)
                                    (filter (\<lambda>(x, w). w \<noteq> 0) (zip xs ws))))
                        (fl_sum A ws))))"

section \<open>Data handed between the entry point, the family functions and the core\<close>

text \<open>A numeric matrix \<open>x\<close>: its \<^verbatim>\<open>dim\<close> attribute (absent for a plain vector), its
  entries in column-major order, and whether it inherits from \<^verbatim>\<open>sparseMatrix\<close>.\<close>

record xmatrix =
  x_dim :: "(nat \<times> nat) option"
  x_data :: "rdouble list"
  x_sparse :: bool

text \<open>A numeric vector or matrix of finite values (the response).\<close>

record rarray =
  dat :: "real list"
  dm :: "(nat \<times> nat) option"

datatype family = Gaussian | Binomial | Poisson | Multinomial | Cox | MGaussian

datatype type_gaussian = Covariance | Naive

datatype type_logistic = Newton | Modified_Newton

datatype type_multinomial = Ungrouped | Grouped

text \<open>
  Modelled from the spec: the process-wide settings behind \<^verbatim>\<open>glmnet.control\<close>, which
  is not among the sources. The spec lists the record
  \<^verbatim>\<open>{thresh, fdev, devmax, big, pmin, exmx, eps, mxit, epsnr, mnlam, itrace}\<close>, read with
  \<^verbatim>\<open>glmnet.control()\<close> and changed one setting at a time with
  \<^verbatim>\<open>glmnet.control(name = value)\<close>; \<open>big\<close> is a finite constant.
\<close>

record internal_parms =
  thresh_parm :: real
  fdev :: real
  devmax :: real
  big :: real
  pmin :: real
  exmx :: real
  eps :: real
  mxit :: int
  epsnr :: real
  mnlam :: int
  itrace :: int

text \<open>The arguments that \<^verbatim>\<open>glmnet\<close> hands to a family function (lines 515-522).\<close>

record fit_args =
  a_x :: xmatrix
  a_is_sparse :: bool
  a_y :: rarray
  a_weights :: "real list"
  a_offset :: "real list option"
  a_type_gaussian :: type_gaussian
  a_alpha :: real
  a_nobs :: nat
  a_nvars :: nat
  a_jd :: "int list"
  a_vp :: "real list"
  a_mp :: "real list list"
  a_cl :: "rdouble list \<times> rdouble list"
  a_ne :: int
  a_nx :: int
  a_nlam :: nat
  a_flmin :: real
  a_ulam :: "real list"
  a_thresh :: real
  a_isd :: int
  a_jsd :: int
  a_intr :: int
  a_maxit :: int
  a_kopt :: int
  a_family :: family

text \<open>The input arguments of a call of the compiled core. The progress bar and the
  output buffers, which the core fills, are left out: the outputs are the value the
  core returns.\<close>

record core_call =
  c_parm :: real
  c_x :: xmatrix
  c_y :: rarray
  c_weights :: "real list"
  c_jd :: "int list"
  c_vp :: "real list"
  c_mp :: "real list list"
  c_cl :: "rdouble list \<times> rdouble list"
  c_ne :: int
  c_nx :: int
  c_nlam :: nat
  c_flmin :: real
  c_ulam :: "real list"
  c_thresh :: real
  c_isd :: int
  c_intr :: int
  c_maxit :: int

record elnet_call = core_call +
  c_ka :: int

record fishnet_call = core_call +
  c_offset :: rarray

text \<open>What the core returns.\<close>

record path_fit =
  lmu :: int
  a0 :: "real list"
  ca :: "real list list"
  ia :: "int list"
  nin :: "int list"
  alm :: "real list"
  nlp :: int
  jerr :: int

record elnet_fit = path_fit +
  rsq :: "real list"

record fishnet_fit = path_fit +
  nulldev :: real
  dev :: "real list"

text \<open>What \<^verbatim>\<open>getcoef\<close> returns, and the list a family function returns.\<close>

record coefob =
  co_a0 :: "real list"
  co_beta :: "real list list"
  co_df :: "int list"
  co_lambda :: "real list"

record glmfit =
  fit_a0 :: "real list"
  fit_beta :: "real list list"
  fit_df :: "int list"
  fit_lambda :: "real list"
  dev_ratio :: "real option list"
  fit_nulldev :: real
  npasses :: int
  fit_jerr :: int
  fit_offset :: bool
  fit_class :: "string list"
  fit_nobs :: "nat option"

type_synonym 'a outcome = "string list \<times> (rerror + 'a)"

text \<open>
  The model covers a call with a numeric matrix \<open>x\<close>, a numeric vector \<open>y\<close> (no
  \<^verbatim>\<open>dim\<close> attribute), a built-in family given by name, the default
  \<^verbatim>\<open>penalty.factor\<close>, \<^verbatim>\<open>exclude\<close> absent or a vector of indices, and \<^verbatim>\<open>relax = FALSE\<close>.
  Column names and the progress bar only label and report; they are left out. An
  argument with a default is an option: \<open>None\<close> is the missing argument.
\<close>

record glmnet_in =
  g_x :: xmatrix
  g_y :: "real list"
  g_family :: family
  g_weights :: "real list option"
  g_offset :: "real list option"
  g_alpha :: rdouble
  g_nlambda :: nat
  g_lambda_min_ratio :: "real option"
  g_lambda :: "real list option"
  g_standardize :: bool
  g_intercept :: "bool option"
  g_thresh :: real
  g_dfmax :: "int option"
  g_pmax :: "int option"
  g_exclude :: "int list option"
  g_lower_limits :: "rdouble list"
  g_upper_limits :: "rdouble list"
  g_maxit :: int
  g_type_gaussian :: "type_gaussian option"
  g_type_logistic :: type_logistic
  g_standardize_response :: bool
  g_type_multinomial :: type_multinomial
  g_trace_it :: int

text \<open>
  The double arithmetic, and the functions of the package that the modelled code calls
  and that are not among the sources, are parameters: the compiled cores (which read the process-wide
  settings), the message table \<^verbatim>\<open>jerr\<close> (it returns \<^verbatim>\<open>fatal\<close> and \<^verbatim>\<open>msg\<close>),
  \<^verbatim>\<open>getcoef\<close>, \<^verbatim>\<open>fix.lam\<close>, the family functions \<^verbatim>\<open>lognet\<close>, \<^verbatim>\<open>coxnet\<close> and
  \<^verbatim>\<open>mrelnet\<close>, and \<^verbatim>\<open>use.cox.path\<close> with \<^verbatim>\<open>cox.path\<close> (which receives the arguments
  of the call, the recoded response and the weights).
\<close>

record env =
  dbl :: arith
  elnet_exp :: "internal_parms \<Rightarrow> elnet_call \<Rightarrow> elnet_fit"
  spelnet_exp :: "internal_parms \<Rightarrow> elnet_call \<Rightarrow> elnet_fit"
  fishnet_exp :: "internal_parms \<Rightarrow> fishnet_call \<Rightarrow> fishnet_fit"
  spfishnet_exp :: "internal_parms \<Rightarrow> fishnet_call \<Rightarrow> fishnet_fit"
  jerr_msg :: "int \<Rightarrow> int \<Rightarrow> int \<Rightarrow> family \<Rightarrow> bool \<times> string"
  getcoef :: "path_fit \<Rightarrow> nat \<Rightarrow> int \<Rightarrow> coefob outcome"
  fix_lam :: "real list \<Rightarrow> real list"
  lognet :: "internal_parms \<Rightarrow> fit_args \<Rightarrow> glmfit outcome"
  coxnet :: "internal_parms \<Rightarrow> fit_args \<Rightarrow> glmfit outcome"
  mrelnet :: "internal_parms \<Rightarrow> fit_args \<Rightarrow> glmfit outcome"
  use_cox_path :: "xmatrix \<Rightarrow> rarray \<Rightarrow> bool"
  cox_path :: "internal_parms \<Rightarrow> glmnet_in \<Rightarrow> rarray \<Rightarrow> real list \<Rightarrow> glmfit outcome"

section \<open>The Gaussian family function \<^verbatim>\<open>elnet\<close>\<close>

text \<open>Lines 6-9: the computation mode as the integer \<open>ka\<close>.\<close>

fun ka_of :: "type_gaussian \<Rightarrow> int" where
  "ka_of Covariance = 1"
| "ka_of Naive = 2"

text \<open>Lines 13-19: the offset is subtracted from the response.\<close>

definition minus_offset :: "arith \<Rightarrow> rarray \<Rightarrow> real list option \<Rightarrow> rarray" where
  "minus_offset A y offset =
     (case offset of None \<Rightarrow> y
      | Some off \<Rightarrow> y\<lparr>dat := recycle2 (fl_sub A) (dat y) off\<rparr>)"

text \<open>
  Lines 21-22: \<^verbatim>\<open>ybar\<close> and \<^verbatim>\<open>nulldev = sum(weights * (y-ybar)^2)\<close>, where the square
  is a product. The value is \<open>None\<close> when \<^verbatim>\<open>nulldev\<close> is \<^verbatim>\<open>NaN\<close>: \<^verbatim>\<open>ybar\<close> is not finite
  and the response is not empty.
\<close>

definition elnet_ybar :: "arith \<Rightarrow> rarray \<Rightarrow> real list \<Rightarrow> int \<Rightarrow> rerror + real option" where
  "elnet_ybar A y weights intr =
     (if intr \<noteq> 0 then weighted_mean A (dat y) weights else Inr (Some 0))"

definition elnet_nulldev :: "arith \<Rightarrow> rarray \<Rightarrow> real list \<Rightarrow> int \<Rightarrow> rerror + real option" where
  "elnet_nulldev A y weights intr =
     (case elnet_ybar A y weights intr of
        Inl e \<Rightarrow> Inl e
      | Inr None \<Rightarrow> Inr (if dat y = [] then Some 0 else None)
      | Inr (Some ybar) \<Rightarrow>
          Inr (Some (fl_sum A
                       (recycle2 (\<lambda>w v. fl_mul A w (fl_mul A (fl_sub A v ybar) (fl_sub A v ybar)))
                          weights (dat y)))))"

definition elnet_core_call :: "fit_args \<Rightarrow> rarray \<Rightarrow> elnet_call" where
  "elnet_core_call a y =
     \<lparr>c_parm = a_alpha a, c_x = a_x a, c_y = y, c_weights = a_weights a, c_jd = a_jd a,
      c_vp = a_vp a, c_mp = a_mp a, c_cl = a_cl a, c_ne = a_ne a, c_nx = a_nx a,
      c_nlam = a_nlam a, c_flmin = a_flmin a, c_ulam = a_ulam a, c_thresh = a_thresh a,
      c_isd = a_isd a, c_intr = a_intr a, c_maxit = a_maxit a,
      c_ka = ka_of (a_type_gaussian a)\<rparr>"

text \<open>Lines 49-58: the error code of the core is looked up, then the result list is
  built from \<^verbatim>\<open>getcoef\<close> and \<^verbatim>\<open>fit$rsq[seq(fit$lmu)]\<close>.\<close>

definition path_result ::
  "env \<Rightarrow> family \<Rightarrow> string \<Rightarrow> fit_args \<Rightarrow> path_fit \<Rightarrow> real list \<Rightarrow> real \<Rightarrow> bool \<Rightarrow> glmfit outcome"
where
  "path_result E fam cls a fit devs nulld is_offset =
     (let errmsg = jerr_msg E (jerr fit) (a_maxit a) (a_nx a) fam;
          w1 = (if jerr fit \<noteq> 0 then [snd errmsg] else [])
      in if jerr fit \<noteq> 0 \<and> fst errmsg then ([], Inl (Stop (snd errmsg)))
         else case getcoef E fit (a_nvars a) (a_nx a) of
                (w2, Inl e) \<Rightarrow> (w1 @ w2, Inl e)
              | (w2, Inr co) \<Rightarrow>
                 (case r_subscript None (map Some devs) (r_seq (lmu fit)) of
                    Inl e \<Rightarrow> (w1 @ w2, Inl e)
                  | Inr dv \<Rightarrow>
                     (w1 @ w2,
                      Inr \<lparr>fit_a0 = co_a0 co, fit_beta = co_beta co, fit_df = co_df co,
                           fit_lambda = co_lambda co, dev_ratio = dv, fit_nulldev = nulld,
                           npasses = nlp fit, fit_jerr = jerr fit, fit_offset = is_offset,
                           fit_class = [cls], fit_nobs = None\<rparr>)))"

text \<open>Lines 25-48: the sparse or the dense core is called; its value is the fit.\<close>

definition elnet_core_fit :: "env \<Rightarrow> internal_parms \<Rightarrow> fit_args \<Rightarrow> elnet_fit" where
  "elnet_core_fit E P a =
     (if a_is_sparse a
      then spelnet_exp E P (elnet_core_call a (minus_offset (dbl E) (a_y a) (a_offset a)))
      else elnet_exp E P (elnet_core_call a (minus_offset (dbl E) (a_y a) (a_offset a))))"

definition elnet :: "env \<Rightarrow> internal_parms \<Rightarrow> fit_args \<Rightarrow> glmfit outcome" where
  "elnet E P a =
     (case elnet_nulldev (dbl E) (minus_offset (dbl E) (a_y a) (a_offset a)) (a_weights a) (a_intr a) of
        Inl e \<Rightarrow> ([], Inl e)
      | Inr None \<Rightarrow> ([], Inl na_cond)
      | Inr (Some nulld) \<Rightarrow>
          if nulld = 0
          then ([], Inl (Stop ''y is constant; gaussian glmnet fails at standardization step''))
          else path_result E Gaussian ''elnet'' a (path_fit.truncate (elnet_core_fit E P a))
                 (rsq (elnet_core_fit E P a)) nulld (a_offset a \<noteq> None))"

section \<open>The Poisson family function \<^verbatim>\<open>fishnet\<close>\<close>

definition fishnet_core_call :: "fit_args \<Rightarrow> rarray \<Rightarrow> fishnet_call" where
  "fishnet_core_call a offset =
     \<lparr>c_parm = a_alpha a, c_x = a_x a, c_y = a_y a, c_weights = a_weights a, c_jd = a_jd a,
      c_vp = a_vp a, c_mp = a_mp a, c_cl = a_cl a, c_ne = a_ne a, c_nx = a_nx a,
      c_nlam = a_nlam a, c_flmin = a_flmin a, c_ulam = a_ulam a, c_thresh = a_thresh a,
      c_isd = a_isd a, c_intr = a_intr a, c_maxit = a_maxit a,
      c_offset = offset\<rparr>"

text \<open>Lines 546-553: without an offset, \<^verbatim>\<open>y*0\<close> takes its place.\<close>

definition fishnet_offset :: "arith \<Rightarrow> fit_args \<Rightarrow> rarray" where
  "fishnet_offset A a =
     (case a_offset a of
        None \<Rightarrow> (a_y a)\<lparr>dat := map (\<lambda>v. fl_mul A v 0) (dat (a_y a))\<rparr>
      | Some off \<Rightarrow> \<lparr>dat = off, dm = None\<rparr>)"

definition fishnet_core_fit :: "env \<Rightarrow> internal_parms \<Rightarrow> fit_args \<Rightarrow> fishnet_fit" where
  "fishnet_core_fit E P a =
     (if a_is_sparse a then spfishnet_exp E P (fishnet_core_call a (fishnet_offset (dbl E) a))
      else fishnet_exp E P (fishnet_core_call a (fishnet_offset (dbl E) a)))"

definition fishnet :: "env \<Rightarrow> internal_parms \<Rightarrow> fit_args \<Rightarrow> glmfit outcome" where
  "fishnet E P a =
     (if \<exists>v \<in> set (dat (a_y a)). v < 0
      then ([], Inl (Stop ''negative responses encountered;  not permitted for Poisson family''))
      else path_result E Poisson ''fishnet'' a (path_fit.truncate (fishnet_core_fit E P a))
             (dev (fishnet_core_fit E P a)) (nulldev (fishnet_core_fit E P a))
             (a_offset a \<noteq> None))"

section \<open>The entry point \<^verbatim>\<open>glmnet\<close>\<close>

text \<open>The defaults of line 350 that depend on the data.\<close>

definition lambda_min_ratio_default :: "nat \<Rightarrow> nat \<Rightarrow> real" where
  "lambda_min_ratio_default nobs nvars = (if nobs < nvars then 1 / 100 else 1 / 10000)"

definition type_gaussian_default :: "nat \<Rightarrow> type_gaussian" where
  "type_gaussian_default nvars = (if nvars < 500 then Covariance else Naive)"

definition dfmax_default :: "nat \<Rightarrow> int" where
  "dfmax_default nvars = int nvars + 1"

definition pmax_default :: "int \<Rightarrow> nat \<Rightarrow> int" where
  "pmax_default dfmax nvars = min (dfmax * 2 + 20) (int nvars)"

text \<open>
  Lines 354-358. When \<open>x\<close> has no \<^verbatim>\<open>dim\<close>, the test \<^verbatim>\<open>is.null(np)|(np[2]<=1)\<close> is
  \<^verbatim>\<open>TRUE | logical(0)\<close>, a logical of length zero, and the \<^verbatim>\<open>if\<close> itself fails.
\<close>

definition check_dims :: "xmatrix \<Rightarrow> rerror + nat \<times> nat" where
  "check_dims x =
     (case x_dim x of
        None \<Rightarrow> Inl (Stop ''argument is of length zero'')
      | Some (n, p) \<Rightarrow>
          if p \<le> 1 then Inl (Stop ''x should be a matrix with 2 or more columns'')
          else Inr (n, p))"

text \<open>
  Lines 359-370: a response without \<^verbatim>\<open>dim\<close> is turned into a factor and then into
  the indicator matrix \<^verbatim>\<open>diag(nc)[as.numeric(y),]\<close> of its levels, which drops to a
  vector when it has one row or one column. \<^verbatim>\<open>min\<close> of an empty table is \<^verbatim>\<open>Inf\<close>,
  with a warning.
\<close>

definition indicator_matrix :: "real list \<Rightarrow> real list \<Rightarrow> rarray" where
  "indicator_matrix lev y =
     \<lparr>dat = concat (map (\<lambda>l. map (\<lambda>v. if v = l then 1 else 0) y) lev),
      dm = (if length y = 1 \<or> length lev = 1 then None else Some (length y, length lev))\<rparr>"

definition recode_response :: "real list \<Rightarrow> (rarray \<times> nat) outcome" where
  "recode_response y =
     (let lev = sort (remdups y);
          ntab = map (\<lambda>l. count_list y l) lev
      in case ntab of
           [] \<Rightarrow> ([''no non-missing arguments to min; returning Inf''],
                  Inr (indicator_matrix lev y, length lev))
         | c # cs \<Rightarrow>
             let minclass = fold min cs c
             in if minclass \<le> 1
                then ([], Inl (Stop ''one multinomial or binomial class has 1 or 0 observations; not allowed''))
                else ((if minclass < 8
                       then [''one multinomial or binomial class has fewer than 8  observations; dangerous ground'']
                       else []),
                      Inr (indicator_matrix lev y, length lev)))"

text \<open>Lines 375-377: missing values in \<open>x\<close>, and the weights.\<close>

definition has_na :: "xmatrix \<Rightarrow> bool" where
  "has_na x = (\<exists>v \<in> set (x_data x). is_na v)"

definition check_weights :: "real list option \<Rightarrow> nat \<Rightarrow> rerror + real list" where
  "check_weights weights nobs =
     (case weights of
        None \<Rightarrow> Inr (replicate nobs 1)
      | Some w \<Rightarrow>
          if length w \<noteq> nobs
          then Inl (Stop ''number of elements in weights not equal to the number of rows of x'')
          else Inr w)"

text \<open>Lines 403-411: the two tests on \<^verbatim>\<open>alpha\<close>, one after the other.\<close>

fun clamp_alpha :: "rdouble \<Rightarrow> real outcome" where
  "clamp_alpha NA = ([], Inl na_cond)"
| "clamp_alpha PInf = ([''alpha >1; set to 1''], Inr 1)"
| "clamp_alpha MInf = ([''alpha<0; set to 0''], Inr 0)"
| "clamp_alpha (Fin r) =
     (if r > 1 then ([''alpha >1; set to 1''], Inr 1)
      else if r < 0 then ([''alpha<0; set to 0''], Inr 0)
      else ([], Inr r))"

text \<open>Lines 413-416: \<^verbatim>\<open>drop(y)\<close> and the number of rows of the response.\<close>

definition drop_dims :: "rarray \<Rightarrow> rarray" where
  "drop_dims y =
     (case dm y of
        None \<Rightarrow> y
      | Some (n, k) \<Rightarrow> if n = 1 \<or> k = 1 then y\<lparr>dm := None\<rparr> else y)"

definition nrowy :: "rarray \<Rightarrow> nat" where
  "nrowy y = (case dm y of None \<Rightarrow> length (dat y) | Some (n, k) \<Rightarrow> n)"

definition check_nrowy :: "rarray \<Rightarrow> nat \<Rightarrow> rerror + rarray" where
  "check_nrowy y nobs =
     (if nrowy (drop_dims y) \<noteq> nobs
      then Inl (Stop ''number of observations in y not equal to the number of rows of x'')
      else Inr (drop_dims y))"

text \<open>Lines 421-431: the exclusion list \<open>jd\<close>, prefixed by its length.
  \<^verbatim>\<open>match(exclude, seq(nvars), 0)\<close> is the index itself when it is in range and zero
  otherwise.\<close>

definition exclude_jd :: "int list option \<Rightarrow> nat \<Rightarrow> rerror + int list" where
  "exclude_jd exclude nvars =
     (let ex = (case exclude of None \<Rightarrow> [] | Some e \<Rightarrow> e)
      in if length ex > 0
         then let jd = map (\<lambda>e. if e \<in> set (r_seq (int nvars)) then e else 0) ex
              in if list_ex (\<lambda>j. \<not> j > 0) jd
                 then Inl (Stop ''Some excluded variables out of range'')
                 else Inr (int (length jd) # jd)
         else Inr [0])"

text \<open>Lines 443-455: the box limits.\<close>

definition limits_length :: "string \<Rightarrow> nat \<Rightarrow> rdouble list \<Rightarrow> rerror + rdouble list" where
  "limits_length msg nvars lims =
     (if length lims < nvars
      then (if length lims = 1 then Inr (replicate nvars (hd lims)) else Inl (Stop msg))
      else r_subscript NA lims (r_seq (int nvars)))"

definition check_limits ::
  "internal_parms \<Rightarrow> nat \<Rightarrow> rdouble list \<Rightarrow> rdouble list \<Rightarrow> rerror + rdouble list \<times> rdouble list"
where
  "check_limits ip nvars lower upper =
     (case r_any (map (\<lambda>v. rd_gt v 0) lower) of
        None \<Rightarrow> Inl na_cond
      | Some True \<Rightarrow> Inl (Stop ''Lower limits should be non-positive'')
      | Some False \<Rightarrow>
     (case r_any (map (\<lambda>v. rd_lt v 0) upper) of
        None \<Rightarrow> Inl na_cond
      | Some True \<Rightarrow> Inl (Stop ''Upper limits should be non-negative'')
      | Some False \<Rightarrow>
     (case limits_length ''Require length 1 or nvars lower.limits'' nvars
             (map (\<lambda>v. if v = MInf then Fin (- big ip) else v) lower) of
        Inl e \<Rightarrow> Inl e
      | Inr lo \<Rightarrow>
     (case limits_length ''Require length 1 or nvars upper.limits'' nvars
             (map (\<lambda>v. if v = PInf then Fin (big ip) else v) upper) of
        Inl e \<Rightarrow> Inl e
      | Inr up \<Rightarrow> Inr (lo, up)))))"

text \<open>Lines 473-483: \<open>flmin\<close>, \<open>ulam\<close> and \<open>nlam\<close>.\<close>

definition lambda_args ::
  "real option \<Rightarrow> real list option \<Rightarrow> nat \<Rightarrow> nat \<Rightarrow> nat \<Rightarrow> rerror + real \<times> real list \<times> nat"
where
  "lambda_args lmr lambda nlam nobs nvars =
     (case lambda of
        None \<Rightarrow>
          let lambda_min_ratio =
                (case lmr of None \<Rightarrow> lambda_min_ratio_default nobs nvars | Some r \<Rightarrow> r)
          in if lambda_min_ratio \<ge> 1 then Inl (Stop ''lambda.min.ratio should be less than 1'')
             else Inr (lambda_min_ratio, [0], nlam)
      | Some lam \<Rightarrow>
          if \<exists>v \<in> set lam. v < 0 then Inl (Stop ''lambdas should be non-negative'')
          else Inr (1, rev (sort lam), length lam))"

text \<open>Lines 505-513: the Hessian option \<open>kopt\<close>.\<close>

definition kopt_of :: "type_logistic \<Rightarrow> family \<Rightarrow> type_multinomial \<Rightarrow> int" where
  "kopt_of tlog fam tmul =
     (if fam = Multinomial \<and> tmul = Grouped then 2
      else (case tlog of Newton \<Rightarrow> 0 | Modified_Newton \<Rightarrow> 1))"

text \<open>Line 433: the first column of the default \<^verbatim>\<open>penalty.factor\<close>, a matrix of
  ones with \<open>nvars\<close> rows and \<open>nc\<close> columns; with no column the subscript fails.\<close>

definition vp_default :: "nat \<Rightarrow> nat \<Rightarrow> rerror + real list" where
  "vp_default nvars nc =
     (if nc = 0 then Inl (Stop ''subscript out of bounds'') else Inr (replicate nvars 1))"

text \<open>
  The state of a call: the process-wide settings, the expression registered with
  \<^verbatim>\<open>on.exit\<close> (a later \<^verbatim>\<open>on.exit\<close> without \<^verbatim>\<open>add = TRUE\<close> replaces an earlier one), and
  the warnings raised so far.
\<close>

record lstate =
  parms :: internal_parms
  on_exit :: "(internal_parms \<Rightarrow> internal_parms) option"
  warns :: "string list"

definition warn :: "string list \<Rightarrow> lstate \<Rightarrow> lstate" where
  "warn w s = s\<lparr>warns := warns s @ w\<rparr>"

text \<open>Lines 434-441: tracing is switched on for the call when asked for.\<close>

definition trace_guard :: "int \<Rightarrow> lstate \<Rightarrow> lstate" where
  "trace_guard trace_it s =
     (if itrace (parms s) \<noteq> 0 then s
      else if trace_it \<noteq> 0
           then s\<lparr>parms := (parms s)\<lparr>itrace := 1\<rparr>,
                  on_exit := Some (\<lambda>p. p\<lparr>itrace := 0\<rparr>)\<rparr>
           else s)"

text \<open>Lines 456-464: a bound of zero switches \<open>fdev\<close> off for the call.\<close>

definition fdev_guard :: "rdouble list \<times> rdouble list \<Rightarrow> lstate \<Rightarrow> lstate" where
  "fdev_guard cl s =
     (if \<exists>v \<in> set (fst cl @ snd cl). v = Fin 0
      then (let fdev0 = fdev (parms s)
            in if fdev0 \<noteq> 0
               then s\<lparr>parms := (parms s)\<lparr>fdev := 0\<rparr>,
                      on_exit := Some (\<lambda>p. p\<lparr>fdev := fdev0\<rparr>)\<rparr>
               else s)
      else s)"

text \<open>Lines 354-381: the checks made for every family.\<close>

definition glmnet_checks ::
  "lstate \<Rightarrow> glmnet_in \<Rightarrow> lstate \<times> (rerror + nat \<times> nat \<times> rarray \<times> nat \<times> real list)"
where
  "glmnet_checks s a =
     (case check_dims (g_x a) of
        Inl e \<Rightarrow> (s, Inl e)
      | Inr (nobs, nvars) \<Rightarrow>
     (case recode_response (g_y a) of
        (w, Inl e) \<Rightarrow> (warn w s, Inl e)
      | (w, Inr (y, nc)) \<Rightarrow>
          if has_na (g_x a)
          then (warn w s, Inl (Stop ''x has missing values; consider using makeX() to impute them''))
          else (case check_weights (g_weights a) nobs of
                  Inl e \<Rightarrow> (warn w s, Inl e)
                | Inr weights \<Rightarrow> (warn w s, Inr (nobs, nvars, y, nc, weights)))))"

text \<open>Lines 403-513: the generic arguments of the family functions.\<close>

definition glmnet_generic ::
  "lstate \<Rightarrow> glmnet_in \<Rightarrow> nat \<times> nat \<times> rarray \<times> nat \<times> real list \<Rightarrow> lstate \<times> (rerror + fit_args)"
where
  "glmnet_generic s a c =
     (case c of (nobs, nvars, y0, nc, weights) \<Rightarrow>
     (case clamp_alpha (g_alpha a) of
        (w, Inl e) \<Rightarrow> (warn w s, Inl e)
      | (w, Inr alpha) \<Rightarrow>
     (case check_nrowy y0 nobs of
        Inl e \<Rightarrow> (warn w s, Inl e)
      | Inr y \<Rightarrow>
     (case exclude_jd (g_exclude a) nvars of
        Inl e \<Rightarrow> (warn w s, Inl e)
      | Inr jd \<Rightarrow>
     (case vp_default nvars nc of
        Inl e \<Rightarrow> (warn w s, Inl e)
      | Inr vp \<Rightarrow>
     (let internal_parms = parms s;
          s1 = trace_guard (g_trace_it a) (warn w s)
      in case check_limits internal_parms nvars (g_lower_limits a) (g_upper_limits a) of
           Inl e \<Rightarrow> (s1, Inl e)
         | Inr cl \<Rightarrow>
     (let s2 = fdev_guard cl s1;
          s3 = (if g_intercept a \<noteq> None \<and> g_family a = Cox
                then warn [''Cox model has no intercept''] s2 else s2);
          ne = (case g_dfmax a of None \<Rightarrow> dfmax_default nvars | Some d \<Rightarrow> d)
      in case lambda_args (g_lambda_min_ratio a) (g_lambda a) (g_nlambda a) nobs nvars of
           Inl e \<Rightarrow> (s3, Inl e)
         | Inr (flmin, ulam, nlam) \<Rightarrow>
             (s3,
              Inr \<lparr>a_x = g_x a, a_is_sparse = x_sparse (g_x a), a_y = y, a_weights = weights,
                   a_offset = g_offset a,
                   a_type_gaussian = (case g_type_gaussian a of
                                        None \<Rightarrow> type_gaussian_default nvars | Some t \<Rightarrow> t),
                   a_alpha = alpha, a_nobs = nobs, a_nvars = nvars, a_jd = jd, a_vp = vp,
                   a_mp = replicate nc (replicate nvars 1), a_cl = cl, a_ne = ne,
                   a_nx = (case g_pmax a of None \<Rightarrow> pmax_default ne nvars | Some p \<Rightarrow> p),
                   a_nlam = nlam, a_flmin = flmin, a_ulam = ulam, a_thresh = g_thresh a,
                   a_isd = (if g_standardize a then 1 else 0),
                   a_jsd = (if g_standardize_response a then 1 else 0),
                   a_intr = (if g_intercept a = Some False then 0 else 1),
                   a_maxit = g_maxit a,
                   a_kopt = kopt_of (g_type_logistic a) (g_family a) (g_type_multinomial a),
                   a_family = g_family a\<rparr>))))))))"

definition glmnet_prepare :: "lstate \<Rightarrow> glmnet_in \<Rightarrow> lstate \<times> (rerror + fit_args)" where
  "glmnet_prepare s a =
     (case glmnet_checks s a of
        (s1, Inl e) \<Rightarrow> (s1, Inl e)
      | (s1, Inr c) \<Rightarrow> glmnet_generic s1 a c)"

text \<open>Lines 515-522: the family function is chosen by name.\<close>

definition family_fit :: "env \<Rightarrow> internal_parms \<Rightarrow> fit_args \<Rightarrow> glmfit outcome" where
  "family_fit E P args =
     (case a_family args of
        Gaussian \<Rightarrow> elnet E P args
      | Poisson \<Rightarrow> fishnet E P args
      | Binomial \<Rightarrow> lognet E P args
      | Multinomial \<Rightarrow> lognet E P args
      | Cox \<Rightarrow> coxnet E P args
      | MGaussian \<Rightarrow> mrelnet E P args)"

text \<open>Lines 527-530: the \<open>\<lambda>\<close> values of the fit are passed through \<^verbatim>\<open>fix.lam\<close> when
  the caller gave none, and the fit is labelled.\<close>

definition glmnet_finish :: "env \<Rightarrow> glmnet_in \<Rightarrow> nat \<Rightarrow> glmfit \<Rightarrow> glmfit" where
  "glmnet_finish E a nobs fit =
     (let fit1 = (if g_lambda a = None then fit\<lparr>fit_lambda := fix_lam E (fit_lambda fit)\<rparr>
                  else fit)
      in fit1\<lparr>fit_nobs := Some nobs, fit_class := fit_class fit1 @ [''glmnet'']\<rparr>)"

definition glmnet_run :: "env \<Rightarrow> lstate \<Rightarrow> glmnet_in \<Rightarrow> lstate \<times> (rerror + glmfit)" where
  "glmnet_run E s a =
     (case glmnet_checks s a of
        (s1, Inl e) \<Rightarrow> (s1, Inl e)
      | (s1, Inr (nobs, nvars, y, nc, weights)) \<Rightarrow>
          if g_family a = Cox \<and> use_cox_path E (g_x a) y
          then (case cox_path E (parms s1) a y weights of (w, r) \<Rightarrow> (warn w s1, r))
          else (case glmnet_generic s1 a (nobs, nvars, y, nc, weights) of
                  (s2, Inl e) \<Rightarrow> (s2, Inl e)
                | (s2, Inr args) \<Rightarrow>
                    (case family_fit E (parms s2) args of
                       (w, Inl e) \<Rightarrow> (warn w s2, Inl e)
                     | (w, Inr fit) \<Rightarrow> (warn w s2, Inr (glmnet_finish E a nobs fit)))))"

text \<open>The call: the body runs from the settings at entry, and the registered exit
  expression, if any, runs when the body ends, with a value or with an error.\<close>

definition run_on_exit :: "lstate \<Rightarrow> internal_parms" where
  "run_on_exit s = (case on_exit s of None \<Rightarrow> parms s | Some h \<Rightarrow> h (parms s))"

definition glmnet :: "env \<Rightarrow> internal_parms \<Rightarrow> glmnet_in \<Rightarrow> internal_parms \<times> glmfit outcome" where
  "glmnet E P a =
     (case glmnet_run E \<lparr>parms = P, on_exit = None, warns = []\<rparr> a of
        (s, r) \<Rightarrow> (run_on_exit s, warns s, r))"

section \<open>Names used in the statements\<close>

text \<open>The entry of the message table that a family function looks up for the error
  code of its fit.\<close>

definition elnet_errmsg :: "env \<Rightarrow> internal_parms \<Rightarrow> fit_args \<Rightarrow> bool \<times> string" where
  "elnet_errmsg E P a = jerr_msg E (jerr (elnet_core_fit E P a)) (a_maxit a) (a_nx a) Gaussian"

definition fishnet_errmsg :: "env \<Rightarrow> internal_parms \<Rightarrow> fit_args \<Rightarrow> bool \<times> string" where
  "fishnet_errmsg E P a = jerr_msg E (jerr (fishnet_core_fit E P a)) (a_maxit a) (a_nx a) Poisson"

text \<open>
  The null deviance in the words of the spec: \<open>\<Sum>\<^sub>i w\<^sub>i (y\<^sub>i - ybar)\<^sup>2\<close>, where \<open>ybar\<close> is the
  weighted mean of \<open>y\<close> when an intercept is fitted and \<open>0\<close> otherwise. \<open>nulldev_fl\<close> is
  the formula evaluated term by term in a double arithmetic, the weighted mean being
  the quotient of \<open>\<Sum>\<^sub>i y\<^sub>i w\<^sub>i\<close> over the nonzero weights by \<open>\<Sum>\<^sub>i w\<^sub>i\<close>; \<open>nulldev_spec\<close> is
  the formula over the reals.
\<close>

definition nulldev_fl :: "arith \<Rightarrow> real list \<Rightarrow> real list \<Rightarrow> bool \<Rightarrow> real" where
  "nulldev_fl A w y intercept =
     (let ybar = (if intercept
                  then fl_div A
                         (fl_sum A (map (\<lambda>i. fl_mul A (y ! i) (w ! i))
                                      (filter (\<lambda>i. w ! i \<noteq> 0) [0..<length y])))
                         (fl_sum A w)
                  else 0)
      in fl_sum A (map (\<lambda>i. fl_mul A (w ! i)
                               (fl_mul A (fl_sub A (y ! i) ybar) (fl_sub A (y ! i) ybar)))
                     [0..<length y]))"

definition nulldev_spec :: "real list \<Rightarrow> real list \<Rightarrow> bool \<Rightarrow> real" where
  "nulldev_spec w y intercept =
     (let ybar = (if intercept
                  then (\<Sum>i\<leftarrow>[0..<length y]. w ! i * y ! i) / (\<Sum>i\<leftarrow>[0..<length y]. w ! i)
                  else 0)
      in \<Sum>i\<leftarrow>[0..<length y]. w ! i * (y ! i - ybar)\<^sup>2)"

text \<open>What lines 447-454 make of a vector of limits that they accept: one value is
  repeated \<open>n\<close> times, a longer vector is cut to its first \<open>n\<close> entries.\<close>

definition spread :: "nat \<Rightarrow> 'a list \<Rightarrow> 'a list" where
  "spread n xs = (if length xs = 1 then replicate n (hd xs) else take n xs)"

text \<open>
  Modelled from the spec: the \<open>\<lambda>\<close> grid that the core computes when the caller gives
  none. The compiled core is not among the sources. The spec (section 4.6) has it
  compute \<open>\<lambda>\<^sub>m\<^sub>a\<^sub>x\<close>, set \<open>\<lambda>\<^sub>m\<^sub>i\<^sub>n = ratio \<cdot> \<lambda>\<^sub>m\<^sub>a\<^sub>x\<close> and emit \<open>nlam\<close> values equally spaced on
  the log scale, the computed \<open>\<lambda>\<^sub>m\<^sub>a\<^sub>x\<close> first.
\<close>

definition lambda_grid :: "real \<Rightarrow> real \<Rightarrow> nat \<Rightarrow> real list" where
  "lambda_grid lambda_max ratio nlam =
     map (\<lambda>k. lambda_max * ratio powr (real k / real (nlam - 1))) [0..<nlam]"

text \<open>
  Modelled from the spec: the grid that the core, which is not among the sources,
  builds for a call that carries no \<open>\<lambda>\<close> sequence (\<open>flmin < 1\<close>): the grid of the spec for
  the ratio \<open>flmin\<close> and the number \<open>nlam\<close> of the call, where \<open>lambda_max\<close> is the value
  that the core computes from the data of the call.
\<close>

definition core_grid :: "real \<Rightarrow> 'a core_call_scheme \<Rightarrow> real list" where
  "core_grid lambda_max c = lambda_grid lambda_max (c_flmin c) (c_nlam c)"

section \<open>Example calls\<close>

text \<open>
  Concrete settings, data and stand-ins for the absent functions, on which the theorems
  below are instantiated. The example core returns a fixed fit with \<open>lmu = l\<close> and
  \<open>jerr = j\<close>; the example message table calls positive codes fatal; the example
  arithmetic is exact, as the doubles are on the integers used here.
\<close>

definition ex_parms :: internal_parms where
  "ex_parms = \<lparr>thresh_parm = 1 / 10 ^ 7, fdev = 1 / 10 ^ 5, devmax = 999 / 1000,
               big = 99 * 10 ^ 34, pmin = 1 / 10 ^ 9, exmx = 250, eps = 1 / 10 ^ 6,
               mxit = 100, epsnr = 1 / 10 ^ 6, mnlam = 5, itrace = 0\<rparr>"

definition ex_elnet_fit :: "int \<Rightarrow> int \<Rightarrow> elnet_fit" where
  "ex_elnet_fit l j =
     \<lparr>lmu = l, a0 = [3, 3, 3], ca = [[0, 0, 0], [0, 0, 0]], ia = [0, 0], nin = [0, 0, 0],
      alm = [4, 2, 1], nlp = 7, jerr = j, rsq = [0, 1 / 2, 3 / 4]\<rparr>"

definition ex_fishnet_fit :: "int \<Rightarrow> int \<Rightarrow> fishnet_fit" where
  "ex_fishnet_fit l j =
     \<lparr>lmu = l, a0 = [3, 3, 3], ca = [[0, 0, 0], [0, 0, 0]], ia = [0, 0], nin = [0, 0, 0],
      alm = [4, 2, 1], nlp = 7, jerr = j, nulldev = 10, dev = [0, 1 / 2, 3 / 4]\<rparr>"

definition ex_getcoef :: "path_fit \<Rightarrow> nat \<Rightarrow> int \<Rightarrow> coefob outcome" where
  "ex_getcoef fit nvars nx =
     ([], Inr \<lparr>co_a0 = take (nat (lmu fit)) (a0 fit),
               co_beta = replicate (nat (lmu fit)) (replicate nvars 0),
               co_df = take (nat (lmu fit)) (nin fit),
               co_lambda = take (nat (lmu fit)) (alm fit)\<rparr>)"

definition ex_env :: "int \<Rightarrow> int \<Rightarrow> env" where
  "ex_env l j =
     \<lparr>dbl = exact_arith,
      elnet_exp = (\<lambda>P c. ex_elnet_fit l j), spelnet_exp = (\<lambda>P c. ex_elnet_fit l j),
      fishnet_exp = (\<lambda>P c. ex_fishnet_fit l j), spfishnet_exp = (\<lambda>P c. ex_fishnet_fit l j),
      jerr_msg = (\<lambda>n maxit pmax fam. (0 < n, if 0 < n then ''fatal'' else ''truncated'')),
      getcoef = ex_getcoef,
      fix_lam = (\<lambda>lam. case lam of [] \<Rightarrow> [] | v # vs \<Rightarrow> 8 # vs),
      lognet = (\<lambda>P a. ([], Inl (Stop ''lognet''))),
      coxnet = (\<lambda>P a. ([], Inl (Stop ''coxnet''))),
      mrelnet = (\<lambda>P a. ([], Inl (Stop ''mrelnet''))),
      use_cox_path = (\<lambda>x y. False),
      cox_path = (\<lambda>P a y w. ([], Inl (Stop ''cox.path'')))\<rparr>"

definition ex_x :: "nat \<Rightarrow> bool \<Rightarrow> xmatrix" where
  "ex_x n sp =
     \<lparr>x_dim = Some (n, 2), x_data = map (\<lambda>i. Fin (real i)) [0..<2 * n], x_sparse = sp\<rparr>"

definition ex_args :: "real list \<Rightarrow> fit_args" where
  "ex_args y =
     \<lparr>a_x = ex_x (length y) False, a_is_sparse = False, a_y = \<lparr>dat = y, dm = None\<rparr>,
      a_weights = replicate (length y) 1, a_offset = None, a_type_gaussian = Covariance,
      a_alpha = 1, a_nobs = length y, a_nvars = 2, a_jd = [0], a_vp = [1, 1],
      a_mp = [[1, 1]], a_cl = ([Fin (- 1), Fin (- 1)], [Fin 1, Fin 1]), a_ne = 3, a_nx = 2,
      a_nlam = 3, a_flmin = 1 / 10000, a_ulam = [0], a_thresh = 1 / 10 ^ 7, a_isd = 1,
      a_jsd = 0, a_intr = 1, a_maxit = 100000, a_kopt = 0, a_family = Gaussian\<rparr>"

definition ex_state :: lstate where
  "ex_state = \<lparr>parms = ex_parms, on_exit = None, warns = []\<rparr>"

definition ex_in :: "nat \<Rightarrow> bool \<Rightarrow> family \<Rightarrow> glmnet_in" where
  "ex_in n sp fam =
     \<lparr>g_x = ex_x n sp, g_y = replicate n 5, g_family = fam, g_weights = None, g_offset = None,
      g_alpha = Fin 1, g_nlambda = 3, g_lambda_min_ratio = None, g_lambda = None,
      g_standardize = True, g_intercept = None, g_thresh = 1 / 10 ^ 7, g_dfmax = None,
      g_pmax = None, g_exclude = None, g_lower_limits = [MInf], g_upper_limits = [PInf],
      g_maxit = 100000, g_type_gaussian = None, g_type_logistic = Newton,
      g_standardize_response = False, g_type_multinomial = Ungrouped, g_trace_it = 0\<rparr>"

definition ex_in_lambda :: "real list \<Rightarrow> glmnet_in" where
  "ex_in_lambda lam = (ex_in 4 False Poisson)\<lparr>g_lambda := Some lam\<rparr>"

definition ex_in_alpha :: "rdouble \<Rightarrow> glmnet_in" where
  "ex_in_alpha al = (ex_in 4 False Poisson)\<lparr>g_alpha := al\<rparr>"

definition ex_in_limits :: "rdouble list \<Rightarrow> rdouble list \<Rightarrow> glmnet_in" where
  "ex_in_limits lo up = (ex_in 4 False Poisson)\<lparr>g_lower_limits := lo, g_upper_limits := up\<rparr>"

definition ex_in_trace :: glmnet_in where
  "ex_in_trace = (ex_in 4 False Poisson)\<lparr>g_upper_limits := [Fin 0], g_trace_it := 1\<rparr>"

definition ex_in_bad :: glmnet_in where
  "ex_in_bad =
     (ex_in 4 False Poisson)
       \<lparr>g_x := \<lparr>x_dim = Some (4, 2),
                x_data = [Fin 0, PInf, Fin 2, MInf, Fin 4, Fin 5, Fin 6, Fin 7],
                x_sparse = False\<rparr>,
        g_weights := Some [0, - 1, 1, 1]\<rparr>"

definition ex_in_na :: glmnet_in where
  "ex_in_na =
     (ex_in 4 False Poisson)
       \<lparr>g_x := \<lparr>x_dim = Some (4, 2),
                x_data = [Fin 0, NA, Fin 2, Fin 3, Fin 4, Fin 5, Fin 6, Fin 7],
                x_sparse = False\<rparr>\<rparr>"

section \<open>Facts about the R operations\<close>

lemma recycle2_same_length:
  "length xs = length ys \<Longrightarrow> recycle2 f xs ys = map2 f xs ys"
  by (auto simp: recycle2_def intro!: nth_equalityI)

lemma r_subscript_seq:
  assumes "1 \<le> l" and "l \<le> int (length xs)"
  shows "r_subscript na xs (r_seq l) = Inr (take (nat l) xs)"
proof -
  have pos: "filter (\<lambda>i. 0 < i) [1..l] = [1..l]"
    by (rule filter_True) simp
  have neg: "filter (\<lambda>i. i < 0) [1..l] = []"
    by (simp add: filter_empty_conv)
  have sel: "map (\<lambda>i. if i \<le> int (length xs) then xs ! (nat i - 1) else na) [1..l] = take (nat l) xs"
    using assms by (intro nth_equalityI) (auto simp: nat_add_distrib)
  show ?thesis
    using assms(1) by (simp add: r_subscript_def r_seq_def pos neg sel)
qed

lemma r_subscript_seq0: "r_subscript na xs (r_seq 0) = Inr [if xs = [] then na else hd xs]"
proof -
  have "[0..1] = [0, 1::int]" by (simp add: upto.simps)
  then show ?thesis 
    by (cases xs) (auto simp add: r_subscript_def r_seq_def)
qed

lemma map2_nth:
  "length xs = length ys \<Longrightarrow> map2 f xs ys = map (\<lambda>i. f (xs ! i) (ys ! i)) [0..<length ys]"
  by (rule nth_equalityI) simp_all

lemma zip_filter_nth:
  assumes "length ws = length xs"
  shows "map (\<lambda>(x, w). f x w) (filter (\<lambda>(x, w). w \<noteq> (0::real)) (zip xs ws))
           = map (\<lambda>i. f (xs ! i) (ws ! i)) (filter (\<lambda>i. ws ! i \<noteq> 0) [0..<length xs])"
proof -
  have z: "zip xs ws = map (\<lambda>i. (xs ! i, ws ! i)) [0..<length xs]"
    using assms by (intro nth_equalityI) simp_all
  show ?thesis
    unfolding z by (simp add: filter_map comp_def)
qed

section \<open>The result of a fit with a nonzero error code\<close>

lemma path_result_fatal:
  assumes "jerr fit \<noteq> 0" and "fst (jerr_msg E (jerr fit) (a_maxit a) (a_nx a) fam)"
  shows "path_result E fam cls a fit devs nd off
           = ([], Inl (Stop (snd (jerr_msg E (jerr fit) (a_maxit a) (a_nx a) fam))))"
  using assms by (simp add: path_result_def)

lemma path_result_warned:
  assumes "jerr fit \<noteq> 0" and "\<not> fst (jerr_msg E (jerr fit) (a_maxit a) (a_nx a) fam)"
    and "getcoef E fit (a_nvars a) (a_nx a) = (w2, Inr co)"
    and "1 \<le> lmu fit" and "lmu fit \<le> int (length devs)"
  shows "path_result E fam cls a fit devs nd off
           = (snd (jerr_msg E (jerr fit) (a_maxit a) (a_nx a) fam) # w2,
              Inr \<lparr>fit_a0 = co_a0 co, fit_beta = co_beta co, fit_df = co_df co,
                   fit_lambda = co_lambda co,
                   dev_ratio = map Some (take (nat (lmu fit)) devs), fit_nulldev = nd,
                   npasses = nlp fit, fit_jerr = jerr fit, fit_offset = off,
                   fit_class = [cls], fit_nobs = None\<rparr>)"
  using assms by (simp add: path_result_def r_subscript_seq take_map)

lemma truncate_sel [simp]:
  "jerr (path_fit.truncate f) = jerr f" "lmu (path_fit.truncate f) = lmu f"
  "nlp (path_fit.truncate f) = nlp f"
  by (simp_all add: path_fit.truncate_def)

text \<open>
  Claim C1, as amended. Whenever the core returns a nonzero \<open>jerr\<close> to \<^verbatim>\<open>elnet\<close> or
  \<^verbatim>\<open>fishnet\<close>: if the message table calls the code fatal, the family function stops
  with the message and returns nothing; otherwise the message is raised as a warning
  and, when \<open>1 \<le> lmu \<le> nlam\<close>, the result carries as \<open>dev.ratio\<close> exactly the first
  \<open>lmu\<close> entries of \<open>rsq\<close> (of \<open>dev\<close> for Poisson), next to the coefficients that
  \<^verbatim>\<open>getcoef\<close> returns for the fit.
\<close>

theorem nonzero_jerr_fatal_or_truncated:
  "(elnet_nulldev (dbl E) (minus_offset (dbl E) (a_y a) (a_offset a)) (a_weights a) (a_intr a) = Inr (Some nd)
      \<and> nd \<noteq> 0 \<and> jerr (elnet_core_fit E P a) \<noteq> 0 \<longrightarrow>
      (fst (elnet_errmsg E P a) \<longrightarrow>
         elnet E P a = ([], Inl (Stop (snd (elnet_errmsg E P a))))) \<and>
      (\<not> fst (elnet_errmsg E P a)
         \<and> getcoef E (path_fit.truncate (elnet_core_fit E P a)) (a_nvars a) (a_nx a) = (w2, Inr co)
         \<and> 1 \<le> lmu (elnet_core_fit E P a)
         \<and> lmu (elnet_core_fit E P a) \<le> int (length (rsq (elnet_core_fit E P a))) \<longrightarrow>
         elnet E P a
           = (snd (elnet_errmsg E P a) # w2,
              Inr \<lparr>fit_a0 = co_a0 co, fit_beta = co_beta co, fit_df = co_df co,
                   fit_lambda = co_lambda co,
                   dev_ratio = map Some (take (nat (lmu (elnet_core_fit E P a)))
                                 (rsq (elnet_core_fit E P a))),
                   fit_nulldev = nd, npasses = nlp (elnet_core_fit E P a),
                   fit_jerr = jerr (elnet_core_fit E P a), fit_offset = (a_offset a \<noteq> None),
                   fit_class = [''elnet''], fit_nobs = None\<rparr>)))
   \<and>
   (\<not> (\<exists>v \<in> set (dat (a_y a)). v < 0) \<and> jerr (fishnet_core_fit E P a) \<noteq> 0 \<longrightarrow>
      (fst (fishnet_errmsg E P a) \<longrightarrow>
         fishnet E P a = ([], Inl (Stop (snd (fishnet_errmsg E P a))))) \<and>
      (\<not> fst (fishnet_errmsg E P a)
         \<and> getcoef E (path_fit.truncate (fishnet_core_fit E P a)) (a_nvars a) (a_nx a) = (w3, Inr co')
         \<and> 1 \<le> lmu (fishnet_core_fit E P a)
         \<and> lmu (fishnet_core_fit E P a) \<le> int (length (dev (fishnet_core_fit E P a))) \<longrightarrow>
         fishnet E P a
           = (snd (fishnet_errmsg E P a) # w3,
              Inr \<lparr>fit_a0 = co_a0 co', fit_beta = co_beta co', fit_df = co_df co',
                   fit_lambda = co_lambda co',
                   dev_ratio = map Some (take (nat (lmu (fishnet_core_fit E P a)))
                                 (dev (fishnet_core_fit E P a))),
                   fit_nulldev = nulldev (fishnet_core_fit E P a),
                   npasses = nlp (fishnet_core_fit E P a),
                   fit_jerr = jerr (fishnet_core_fit E P a), fit_offset = (a_offset a \<noteq> None),
                   fit_class = [''fishnet''], fit_nobs = None\<rparr>)))"
proof (intro conjI impI; (elim conjE)?)
  assume "elnet_nulldev (dbl E) (minus_offset (dbl E) (a_y a) (a_offset a)) (a_weights a) (a_intr a) = Inr (Some nd)"
    "nd \<noteq> 0" "jerr (elnet_core_fit E P a) \<noteq> 0" "fst (elnet_errmsg E P a)"
  then show "elnet E P a = ([], Inl (Stop (snd (elnet_errmsg E P a))))"
    by (simp add: elnet_def elnet_errmsg_def path_result_fatal)
next
  assume "elnet_nulldev (dbl E) (minus_offset (dbl E) (a_y a) (a_offset a)) (a_weights a) (a_intr a) = Inr (Some nd)"
    "nd \<noteq> 0" "jerr (elnet_core_fit E P a) \<noteq> 0" "\<not> fst (elnet_errmsg E P a)"
    "getcoef E (path_fit.truncate (elnet_core_fit E P a)) (a_nvars a) (a_nx a) = (w2, Inr co)"
    "1 \<le> lmu (elnet_core_fit E P a)"
    "lmu (elnet_core_fit E P a) \<le> int (length (rsq (elnet_core_fit E P a)))"
  then show "elnet E P a
           = (snd (elnet_errmsg E P a) # w2,
              Inr \<lparr>fit_a0 = co_a0 co, fit_beta = co_beta co, fit_df = co_df co,
                   fit_lambda = co_lambda co,
                   dev_ratio = map Some (take (nat (lmu (elnet_core_fit E P a)))
                                 (rsq (elnet_core_fit E P a))),
                   fit_nulldev = nd, npasses = nlp (elnet_core_fit E P a),
                   fit_jerr = jerr (elnet_core_fit E P a), fit_offset = (a_offset a \<noteq> None),
                   fit_class = [''elnet''], fit_nobs = None\<rparr>)"
    by (simp add: elnet_def elnet_errmsg_def path_result_warned)
next
  assume "\<not> (\<exists>v \<in> set (dat (a_y a)). v < 0)" "jerr (fishnet_core_fit E P a) \<noteq> 0"
    "fst (fishnet_errmsg E P a)"
  then show "fishnet E P a = ([], Inl (Stop (snd (fishnet_errmsg E P a))))"
    by (simp add: fishnet_def fishnet_errmsg_def path_result_fatal)
next
  assume "\<not> (\<exists>v \<in> set (dat (a_y a)). v < 0)" "jerr (fishnet_core_fit E P a) \<noteq> 0"
    "\<not> fst (fishnet_errmsg E P a)"
    "getcoef E (path_fit.truncate (fishnet_core_fit E P a)) (a_nvars a) (a_nx a) = (w3, Inr co')"
    "1 \<le> lmu (fishnet_core_fit E P a)"
    "lmu (fishnet_core_fit E P a) \<le> int (length (dev (fishnet_core_fit E P a)))"
  then show "fishnet E P a
           = (snd (fishnet_errmsg E P a) # w3,
              Inr \<lparr>fit_a0 = co_a0 co', fit_beta = co_beta co', fit_df = co_df co',
                   fit_lambda = co_lambda co',
                   dev_ratio = map Some (take (nat (lmu (fishnet_core_fit E P a)))
                                 (dev (fishnet_core_fit E P a))),
                   fit_nulldev = nulldev (fishnet_core_fit E P a),
                   npasses = nlp (fishnet_core_fit E P a),
                   fit_jerr = jerr (fishnet_core_fit E P a), fit_offset = (a_offset a \<noteq> None),
                   fit_class = [''fishnet''], fit_nobs = None\<rparr>)"
    by (simp add: fishnet_def fishnet_errmsg_def path_result_warned)
qed

text \<open>Both branches of C1 on the example core: a fatal code \<open>5\<close>, and the
  non-fatal code \<open>-3\<close> with \<open>lmu = 2\<close>.\<close>

theorem nonzero_jerr_witness:
  "elnet (ex_env 0 5) ex_parms (ex_args [1, 2, 3]) = ([], Inl (Stop ''fatal''))
   \<and> fst (elnet (ex_env 2 (- 3)) ex_parms (ex_args [1, 2, 3])) = [''truncated'']
   \<and> map_sum id dev_ratio (snd (elnet (ex_env 2 (- 3)) ex_parms (ex_args [1, 2, 3])))
       = Inr [Some 0, Some (1 / 2)]
   \<and> fishnet (ex_env 0 5) ex_parms (ex_args [1, 2, 3]) = ([], Inl (Stop ''fatal''))
   \<and> fst (fishnet (ex_env 2 (- 3)) ex_parms (ex_args [1, 2, 3])) = [''truncated'']
   \<and> map_sum id dev_ratio (snd (fishnet (ex_env 2 (- 3)) ex_parms (ex_args [1, 2, 3])))
       = Inr [Some 0, Some (1 / 2)]"
proof -
  let ?a = "ex_args [1, 2, 3]"
  let ?F = "ex_env 0 5" and ?W = "ex_env 2 (- 3)"
  let ?co = "\<lparr>co_a0 = [3, 3], co_beta = [[0, 0], [0, 0]], co_df = [0, 0], co_lambda = [4, 2]\<rparr>"
  have ndF: "elnet_nulldev (dbl ?F) (minus_offset (dbl ?F) (a_y ?a) (a_offset ?a)) (a_weights ?a)
               (a_intr ?a) = Inr (Some 2) \<and> (2::real) \<noteq> 0"
    by code_simp
  have ndW: "elnet_nulldev (dbl ?W) (minus_offset (dbl ?W) (a_y ?a) (a_offset ?a)) (a_weights ?a)
               (a_intr ?a) = Inr (Some 2) \<and> (2::real) \<noteq> 0"
    by code_simp
  have y: "\<not> (\<exists>v \<in> set (dat (a_y ?a)). v < 0)" by code_simp
  have f: "jerr (elnet_core_fit ?F ex_parms ?a) \<noteq> 0 \<and> fst (elnet_errmsg ?F ex_parms ?a)
           \<and> jerr (fishnet_core_fit ?F ex_parms ?a) \<noteq> 0 \<and> fst (fishnet_errmsg ?F ex_parms ?a)"
    by code_simp
  have w: "jerr (elnet_core_fit ?W ex_parms ?a) \<noteq> 0 \<and> \<not> fst (elnet_errmsg ?W ex_parms ?a)
           \<and> getcoef ?W (path_fit.truncate (elnet_core_fit ?W ex_parms ?a)) (a_nvars ?a) (a_nx ?a)
               = ([], Inr ?co)
           \<and> 1 \<le> lmu (elnet_core_fit ?W ex_parms ?a)
           \<and> lmu (elnet_core_fit ?W ex_parms ?a) \<le> int (length (rsq (elnet_core_fit ?W ex_parms ?a)))
           \<and> jerr (fishnet_core_fit ?W ex_parms ?a) \<noteq> 0 \<and> \<not> fst (fishnet_errmsg ?W ex_parms ?a)
           \<and> getcoef ?W (path_fit.truncate (fishnet_core_fit ?W ex_parms ?a)) (a_nvars ?a) (a_nx ?a)
               = ([], Inr ?co)
           \<and> 1 \<le> lmu (fishnet_core_fit ?W ex_parms ?a)
           \<and> lmu (fishnet_core_fit ?W ex_parms ?a) \<le> int (length (dev (fishnet_core_fit ?W ex_parms ?a)))"
    by code_simp
  have e: "snd (elnet_errmsg ?F ex_parms ?a) = ''fatal'' \<and> snd (fishnet_errmsg ?F ex_parms ?a) = ''fatal''
         \<and> snd (elnet_errmsg ?W ex_parms ?a) = ''truncated''
         \<and> snd (fishnet_errmsg ?W ex_parms ?a) = ''truncated''
         \<and> take (nat (lmu (elnet_core_fit ?W ex_parms ?a))) (rsq (elnet_core_fit ?W ex_parms ?a)) = [0, 1 / 2]
         \<and> take (nat (lmu (fishnet_core_fit ?W ex_parms ?a))) (dev (fishnet_core_fit ?W ex_parms ?a)) = [0, 1 / 2]"
    by code_simp
  from nonzero_jerr_fatal_or_truncated[of ?F ?a 2 ex_parms "[]" ?co "[]" ?co] ndF y f
  have 1: "elnet ?F ex_parms ?a = ([], Inl (Stop (snd (elnet_errmsg ?F ex_parms ?a))))"
    and 2: "fishnet ?F ex_parms ?a = ([], Inl (Stop (snd (fishnet_errmsg ?F ex_parms ?a))))"
    by blast+
  from nonzero_jerr_fatal_or_truncated[of ?W ?a 2 ex_parms "[]" ?co "[]" ?co] ndW y w
  have 3: "elnet ?W ex_parms ?a
           = (snd (elnet_errmsg ?W ex_parms ?a) # [],
              Inr \<lparr>fit_a0 = co_a0 ?co, fit_beta = co_beta ?co, fit_df = co_df ?co,
                   fit_lambda = co_lambda ?co,
                   dev_ratio = map Some (take (nat (lmu (elnet_core_fit ?W ex_parms ?a)))
                                 (rsq (elnet_core_fit ?W ex_parms ?a))),
                   fit_nulldev = 2, npasses = nlp (elnet_core_fit ?W ex_parms ?a),
                   fit_jerr = jerr (elnet_core_fit ?W ex_parms ?a), fit_offset = (a_offset ?a \<noteq> None),
                   fit_class = [''elnet''], fit_nobs = None\<rparr>)"
    and 4: "fishnet ?W ex_parms ?a
           = (snd (fishnet_errmsg ?W ex_parms ?a) # [],
              Inr \<lparr>fit_a0 = co_a0 ?co, fit_beta = co_beta ?co, fit_df = co_df ?co,
                   fit_lambda = co_lambda ?co,
                   dev_ratio = map Some (take (nat (lmu (fishnet_core_fit ?W ex_parms ?a)))
                                 (dev (fishnet_core_fit ?W ex_parms ?a))),
                   fit_nulldev = nulldev (fishnet_core_fit ?W ex_parms ?a),
                   npasses = nlp (fishnet_core_fit ?W ex_parms ?a),
                   fit_jerr = jerr (fishnet_core_fit ?W ex_parms ?a), fit_offset = (a_offset ?a \<noteq> None),
                   fit_class = [''fishnet''], fit_nobs = None\<rparr>)"
    by blast+
  show ?thesis
    unfolding 1 2 3 4 using e by simp
qed

text \<open>
  Claim C1 as stated fails when the core stops at the first \<open>\<lambda>\<close>: with \<open>lmu = 0\<close>,
  \<^verbatim>\<open>seq(fit$lmu)\<close> is \<^verbatim>\<open>c(1, 0)\<close> and \<open>dev.ratio\<close> is the one entry \<^verbatim>\<open>rsq[1]\<close>, not the
  first \<open>lmu = 0\<close> entries.
\<close>

theorem truncated_path_counterexample:
  "lmu (elnet_core_fit (ex_env 0 (- 1)) ex_parms (ex_args [1, 2, 3])) = 0
   \<and> jerr (elnet_core_fit (ex_env 0 (- 1)) ex_parms (ex_args [1, 2, 3])) = - 1
   \<and> \<not> fst (elnet_errmsg (ex_env 0 (- 1)) ex_parms (ex_args [1, 2, 3]))
   \<and> map_sum id dev_ratio (snd (elnet (ex_env 0 (- 1)) ex_parms (ex_args [1, 2, 3])))
       = Inr [Some 0]"
  by code_simp

section \<open>The null deviance of a Gaussian fit\<close>

lemma elnet_nulldev_fl:
  assumes "length ws = length (dat y)" and "intr \<noteq> 0 \<longrightarrow> fl_sum A ws \<noteq> 0"
  shows "elnet_nulldev A y ws intr = Inr (Some (nulldev_fl A ws (dat y) (intr \<noteq> 0)))"
  using assms
  by (simp add: elnet_nulldev_def elnet_ybar_def weighted_mean_def nulldev_fl_def
      recycle2_same_length map2_nth zip_filter_nth Let_def)

lemma nulldev_fl_exact:
  assumes "length ws = length ys"
  shows "nulldev_fl exact_arith ws ys b = nulldev_spec ws ys b"
proof -
  have 1: "(\<Sum>i\<leftarrow>filter (\<lambda>i. ws ! i \<noteq> 0) [0..<length ys]. ys ! i * ws ! i)
             = (\<Sum>i\<leftarrow>[0..<length ys]. ws ! i * ys ! i)"
    by (subst sum_list_map_filter) (simp_all add: mult.commute)
  have "map (\<lambda>i. ws ! i) [0..<length ys] = ws"
    using assms by (intro nth_equalityI) simp_all
  then have 2: "sum_list ws = (\<Sum>i\<leftarrow>[0..<length ys]. ws ! i)"
    by simp
  show ?thesis
    by (simp add: nulldev_fl_def nulldev_spec_def exact_arith_def 1 2 power2_eq_square Let_def)
qed

lemma elnet_zero_nulldev:
  assumes "elnet_nulldev (dbl E) (minus_offset (dbl E) (a_y a) (a_offset a)) (a_weights a) (a_intr a) = Inr (Some 0)"
  shows "elnet E P a = ([], Inl (Stop ''y is constant; gaussian glmnet fails at standardization step''))"
  using assms by (simp add: elnet_def)

lemma path_result_nulldev:
  "snd (path_result E fam cls a fit devs nd off) = Inr r \<Longrightarrow> fit_nulldev r = nd"
  by (auto simp: path_result_def Let_def split: if_splits prod.splits sum.splits)

text \<open>
  Claim C8, as amended. With weights as long as the response (the response minus the
  offset, when there is one) and, when an intercept is fitted, a nonzero sum of the
  weights, the null deviance of \<^verbatim>\<open>elnet\<close> is \<open>\<Sum>\<^sub>i w\<^sub>i (y\<^sub>i - ybar)\<^sup>2\<close> evaluated in double
  arithmetic, with \<open>ybar\<close> the weighted mean when an intercept is fitted and \<open>0\<close>
  otherwise; in an arithmetic that does not round, this is the sum over the reals.
  When the computed null deviance is zero, \<^verbatim>\<open>elnet\<close> stops with the message
  \<^verbatim>\<open>y is constant; gaussian glmnet fails at standardization step\<close> whatever the core
  would return, so no error code is produced and no path is computed; a fit that is
  returned carries the computed null deviance, which is not zero.
\<close>

theorem gaussian_nulldev:
  "(length (a_weights a) = length (dat (minus_offset (dbl E) (a_y a) (a_offset a)))
      \<and> (a_intr a \<noteq> 0 \<longrightarrow> fl_sum (dbl E) (a_weights a) \<noteq> 0) \<longrightarrow>
      elnet_nulldev (dbl E) (minus_offset (dbl E) (a_y a) (a_offset a)) (a_weights a) (a_intr a)
        = Inr (Some (nulldev_fl (dbl E) (a_weights a)
                       (dat (minus_offset (dbl E) (a_y a) (a_offset a))) (a_intr a \<noteq> 0))))
   \<and> (length (a_weights a) = length (dat (minus_offset (dbl E) (a_y a) (a_offset a))) \<longrightarrow>
      nulldev_fl exact_arith (a_weights a) (dat (minus_offset (dbl E) (a_y a) (a_offset a)))
          (a_intr a \<noteq> 0)
        = nulldev_spec (a_weights a) (dat (minus_offset (dbl E) (a_y a) (a_offset a)))
            (a_intr a \<noteq> 0))
   \<and> (elnet_nulldev (dbl E) (minus_offset (dbl E) (a_y a) (a_offset a)) (a_weights a) (a_intr a)
        = Inr (Some 0) \<longrightarrow>
      elnet E P a
        = ([], Inl (Stop ''y is constant; gaussian glmnet fails at standardization step'')))
   \<and> (snd (elnet E P a) = Inr r \<longrightarrow>
      elnet_nulldev (dbl E) (minus_offset (dbl E) (a_y a) (a_offset a)) (a_weights a) (a_intr a)
        = Inr (Some (fit_nulldev r)) \<and> fit_nulldev r \<noteq> 0)"
proof (intro conjI impI)
  assume "length (a_weights a) = length (dat (minus_offset (dbl E) (a_y a) (a_offset a)))
      \<and> (a_intr a \<noteq> 0 \<longrightarrow> fl_sum (dbl E) (a_weights a) \<noteq> 0)"
  then show "elnet_nulldev (dbl E) (minus_offset (dbl E) (a_y a) (a_offset a)) (a_weights a)
                 (a_intr a)
        = Inr (Some (nulldev_fl (dbl E) (a_weights a)
                       (dat (minus_offset (dbl E) (a_y a) (a_offset a))) (a_intr a \<noteq> 0)))"
    by (intro elnet_nulldev_fl) simp_all
next
  assume "length (a_weights a) = length (dat (minus_offset (dbl E) (a_y a) (a_offset a)))"
  then show "nulldev_fl exact_arith (a_weights a)
          (dat (minus_offset (dbl E) (a_y a) (a_offset a))) (a_intr a \<noteq> 0)
        = nulldev_spec (a_weights a) (dat (minus_offset (dbl E) (a_y a) (a_offset a)))
            (a_intr a \<noteq> 0)"
    by (rule nulldev_fl_exact)
next
  assume "elnet_nulldev (dbl E) (minus_offset (dbl E) (a_y a) (a_offset a)) (a_weights a) (a_intr a) = Inr (Some 0)"
  then show "elnet E P a
              = ([], Inl (Stop ''y is constant; gaussian glmnet fails at standardization step''))"
    by (rule elnet_zero_nulldev)
next
  assume r: "snd (elnet E P a) = Inr r"
  then show "elnet_nulldev (dbl E) (minus_offset (dbl E) (a_y a) (a_offset a)) (a_weights a) (a_intr a)
              = Inr (Some (fit_nulldev r))"
    by (auto simp: elnet_def split: sum.splits option.splits if_splits dest: path_result_nulldev)
  from r show "fit_nulldev r \<noteq> 0"
    by (auto simp: elnet_def split: sum.splits option.splits if_splits dest: path_result_nulldev)
qed

text \<open>The parts of C8 on the example core, whose arithmetic is exact: the response
  \<open>(1, 2, 3)\<close> with unit weights has mean \<open>2\<close> and null deviance \<open>2\<close>, which the returned
  fit carries; the response \<open>(5, 5, 5)\<close> has null deviance \<open>0\<close>.\<close>

theorem gaussian_nulldev_witness:
  "elnet_nulldev (dbl (ex_env 3 0))
      (minus_offset (dbl (ex_env 3 0)) (a_y (ex_args [1, 2, 3])) (a_offset (ex_args [1, 2, 3])))
      (a_weights (ex_args [1, 2, 3])) (a_intr (ex_args [1, 2, 3])) = Inr (Some 2)
   \<and> nulldev_fl exact_arith (a_weights (ex_args [1, 2, 3]))
       (dat (minus_offset (dbl (ex_env 3 0)) (a_y (ex_args [1, 2, 3])) (a_offset (ex_args [1, 2, 3]))))
       (a_intr (ex_args [1, 2, 3]) \<noteq> 0) = 2
   \<and> elnet (ex_env 3 0) ex_parms (ex_args [5, 5, 5])
       = ([], Inl (Stop ''y is constant; gaussian glmnet fails at standardization step''))
   \<and> fit_nulldev (projr (snd (elnet (ex_env 3 0) ex_parms (ex_args [1, 2, 3])))) = 2"
proof -
  let ?a = "ex_args [1, 2, 3]" and ?b = "ex_args [5, 5, 5]" and ?E = "ex_env 3 0"
  have la: "length (a_weights ?a) = length (dat (minus_offset (dbl ?E) (a_y ?a) (a_offset ?a)))"
    by code_simp
  have ia: "a_intr ?a \<noteq> 0 \<longrightarrow> fl_sum (dbl ?E) (a_weights ?a) \<noteq> 0"
    by code_simp
  have fa: "nulldev_fl (dbl ?E) (a_weights ?a)
              (dat (minus_offset (dbl ?E) (a_y ?a) (a_offset ?a))) (a_intr ?a \<noteq> 0) = 2"
    by code_simp
  have va: "nulldev_spec (a_weights ?a) (dat (minus_offset (dbl ?E) (a_y ?a) (a_offset ?a)))
              (a_intr ?a \<noteq> 0) = 2"
    by code_simp
  have zb: "elnet_nulldev (dbl ?E) (minus_offset (dbl ?E) (a_y ?b) (a_offset ?b)) (a_weights ?b)
              (a_intr ?b) = Inr (Some 0)"
    by code_simp
  have ra: "snd (elnet ?E ex_parms ?a) = Inr (projr (snd (elnet ?E ex_parms ?a)))"
    by code_simp
  from gaussian_nulldev[of ?a ?E ex_parms] la ia fa
  have 1: "elnet_nulldev (dbl ?E) (minus_offset (dbl ?E) (a_y ?a) (a_offset ?a)) (a_weights ?a)
             (a_intr ?a) = Inr (Some 2)"
    by simp
  from gaussian_nulldev[of ?a ?E ex_parms] la va
  have 2: "nulldev_fl exact_arith (a_weights ?a)
             (dat (minus_offset (dbl ?E) (a_y ?a) (a_offset ?a))) (a_intr ?a \<noteq> 0) = 2"
    by simp
  from gaussian_nulldev[of ?b ?E ex_parms] zb
  have 3: "elnet ?E ex_parms ?b
             = ([], Inl (Stop ''y is constant; gaussian glmnet fails at standardization step''))"
    by blast
  from gaussian_nulldev[of ?a ?E ex_parms "projr (snd (elnet ?E ex_parms ?a))"] ra
  have "elnet_nulldev (dbl ?E) (minus_offset (dbl ?E) (a_y ?a) (a_offset ?a)) (a_weights ?a)
             (a_intr ?a) = Inr (Some (fit_nulldev (projr (snd (elnet ?E ex_parms ?a)))))"
    by blast
  with 1 have 4: "fit_nulldev (projr (snd (elnet ?E ex_parms ?a))) = 2"
    by simp
  from 1 2 3 4 show ?thesis by blast
qed

text \<open>
  Claim C8 as stated fails: a constant response is not reported through \<open>jerr\<close>. The
  call stops with an R error before the core runs; the example core would have
  returned \<open>jerr = 0\<close>.
\<close>

theorem constant_response_counterexample:
  "elnet (ex_env 3 0) ex_parms (ex_args [5, 5, 5])
     = ([], Inl (Stop ''y is constant; gaussian glmnet fails at standardization step''))
   \<and> jerr (elnet_core_fit (ex_env 3 0) ex_parms (ex_args [5, 5, 5])) = 0"
  by code_simp

section \<open>What a successful preparation of the arguments implies\<close>

lemma glmnet_generic_Inr:
  assumes "glmnet_generic s a (nobs, nvars, y0, nc, weights) = (s', Inr args)"
  shows "snd (clamp_alpha (g_alpha a)) = Inr (a_alpha args)"
    and "check_nrowy y0 nobs = Inr (a_y args)"
    and "exclude_jd (g_exclude a) nvars = Inr (a_jd args)"
    and "vp_default nvars nc = Inr (a_vp args)"
    and "check_limits (parms s) nvars (g_lower_limits a) (g_upper_limits a) = Inr (a_cl args)"
    and "lambda_args (g_lambda_min_ratio a) (g_lambda a) (g_nlambda a) nobs nvars
           = Inr (a_flmin args, a_ulam args, a_nlam args)"
    and "a_nobs args = nobs" and "a_nvars args = nvars" and "a_weights args = weights"
    and "a_x args = g_x a" and "a_is_sparse args = x_sparse (g_x a)"
    and "a_family args = g_family a" and "a_offset args = g_offset a"
    and "a_type_gaussian args =
           (case g_type_gaussian a of None \<Rightarrow> type_gaussian_default nvars | Some t \<Rightarrow> t)"
    and "s' = (let s2 = fdev_guard (a_cl args)
                          (trace_guard (g_trace_it a) (warn (fst (clamp_alpha (g_alpha a))) s))
               in if g_intercept a \<noteq> None \<and> g_family a = Cox
                  then warn [''Cox model has no intercept''] s2 else s2)"
  using assms unfolding glmnet_generic_def
  by (auto simp: Let_def warn_def split: sum.splits prod.splits)

lemma glmnet_checks_Inr:
  assumes "glmnet_checks s a = (s1, Inr (nobs, nvars, y, nc, weights))"
  shows "check_dims (g_x a) = Inr (nobs, nvars)"
    and "snd (recode_response (g_y a)) = Inr (y, nc)"
    and "\<not> has_na (g_x a)"
    and "check_weights (g_weights a) nobs = Inr weights"
    and "s1 = warn (fst (recode_response (g_y a))) s"
  using assms unfolding glmnet_checks_def
  by (auto split: sum.splits prod.splits if_splits)

lemma glmnet_prepare_Inr:
  assumes "snd (glmnet_prepare s a) = Inr args"
  obtains s1 s' y nc where
    "glmnet_checks s a = (s1, Inr (a_nobs args, a_nvars args, y, nc, a_weights args))"
    and "glmnet_generic s1 a (a_nobs args, a_nvars args, y, nc, a_weights args) = (s', Inr args)"
    and "glmnet_prepare s a = (s', Inr args)"
proof -
  obtain s1 r where c0: "glmnet_checks s a = (s1, r)"
    by (cases "glmnet_checks s a")
  with assms obtain nobs nvars y nc weights where r: "r = Inr (nobs, nvars, y, nc, weights)"
    by (cases r) (auto simp: glmnet_prepare_def)
  obtain s' q where g0: "glmnet_generic s1 a (nobs, nvars, y, nc, weights) = (s', q)"
    by (cases "glmnet_generic s1 a (nobs, nvars, y, nc, weights)")
  with assms c0 r have q: "q = Inr args"
    by (simp add: glmnet_prepare_def)
  have "glmnet_prepare s a = (s', Inr args)"
    using c0 r g0 q by (simp add: glmnet_prepare_def)
  with glmnet_generic_Inr(7,8,9)[OF g0[unfolded q]] c0 r g0 q that show thesis by simp
qed

lemma prepare_facts:
  assumes "snd (glmnet_prepare s a) = Inr args"
  shows "check_dims (g_x a) = Inr (a_nobs args, a_nvars args)"
    and "\<not> has_na (g_x a)"
    and "check_weights (g_weights a) (a_nobs args) = Inr (a_weights args)"
    and "snd (clamp_alpha (g_alpha a)) = Inr (a_alpha args)"
    and "check_limits (parms s) (a_nvars args) (g_lower_limits a) (g_upper_limits a)
           = Inr (a_cl args)"
    and "lambda_args (g_lambda_min_ratio a) (g_lambda a) (g_nlambda a) (a_nobs args) (a_nvars args)
           = Inr (a_flmin args, a_ulam args, a_nlam args)"
    and "a_type_gaussian args
           = (case g_type_gaussian a of None \<Rightarrow> type_gaussian_default (a_nvars args) | Some t \<Rightarrow> t)"
    and "a_is_sparse args = x_sparse (g_x a)"
    and "a_family args = g_family a"
proof -
  from assms obtain s1 s' y nc where
    c: "glmnet_checks s a = (s1, Inr (a_nobs args, a_nvars args, y, nc, a_weights args))"
    and g: "glmnet_generic s1 a (a_nobs args, a_nvars args, y, nc, a_weights args) = (s', Inr args)"
    by (rule glmnet_prepare_Inr)
  have p: "parms s1 = parms s"
    using glmnet_checks_Inr(5)[OF c] by (simp add: warn_def)
  show "check_dims (g_x a) = Inr (a_nobs args, a_nvars args)"
    and "\<not> has_na (g_x a)"
    and "check_weights (g_weights a) (a_nobs args) = Inr (a_weights args)"
    using glmnet_checks_Inr[OF c] by simp_all
  show "snd (clamp_alpha (g_alpha a)) = Inr (a_alpha args)"
    and "check_limits (parms s) (a_nvars args) (g_lower_limits a) (g_upper_limits a)
           = Inr (a_cl args)"
    and "lambda_args (g_lambda_min_ratio a) (g_lambda a) (g_nlambda a) (a_nobs args) (a_nvars args)
           = Inr (a_flmin args, a_ulam args, a_nlam args)"
    and "a_type_gaussian args
           = (case g_type_gaussian a of None \<Rightarrow> type_gaussian_default (a_nvars args) | Some t \<Rightarrow> t)"
    and "a_is_sparse args = x_sparse (g_x a)"
    and "a_family args = g_family a"
    using glmnet_generic_Inr[OF g] p by simp_all
qed

lemma check_dims_Inr: "check_dims x = Inr (n, p) \<Longrightarrow> x_dim x = Some (n, p) \<and> 2 \<le> p"
  by (auto simp: check_dims_def split: option.splits if_splits)

section \<open>The \<open>\<lambda>\<close> arguments\<close>

lemma lambda_grid_min:
  assumes "0 < ratio" and "ratio < 1" and "2 \<le> nlam" and "0 \<le> lambda_max"
  shows "Min (set (lambda_grid lambda_max ratio nlam)) = ratio * lambda_max"
    and "last (lambda_grid lambda_max ratio nlam) = ratio * lambda_max"
    and "length (lambda_grid lambda_max ratio nlam) = nlam"
proof -
  have n: "real (nlam - 1) > 0" using assms(3) by simp
  have lastv: "lambda_max * ratio powr (real (nlam - 1) / real (nlam - 1)) = ratio * lambda_max"
    using n assms(1) by simp
  have mem: "ratio * lambda_max \<in> set (lambda_grid lambda_max ratio nlam)"
  proof -
    have "nlam - 1 \<in> set [0..<nlam]" using assms(3) by simp
    then have "lambda_max * ratio powr (real (nlam - 1) / real (nlam - 1))
                 \<in> set (lambda_grid lambda_max ratio nlam)"
      unfolding lambda_grid_def set_map by (rule imageI)
    then show ?thesis by (simp only: lastv)
  qed
  have low: "ratio * lambda_max \<le> v" if "v \<in> set (lambda_grid lambda_max ratio nlam)" for v
  proof -
    from that obtain k where k: "k < nlam" and v: "v = lambda_max * ratio powr (real k / real (nlam - 1))"
      by (auto simp: lambda_grid_def)
    from k n have "real k / real (nlam - 1) \<le> 1" by simp
    then have "ratio powr 1 \<le> ratio powr (real k / real (nlam - 1))"
      using assms(1,2) by (intro powr_mono') simp_all
    then have "ratio \<le> ratio powr (real k / real (nlam - 1))"
      using assms(1) by simp
    then have "lambda_max * ratio \<le> lambda_max * ratio powr (real k / real (nlam - 1))"
      using assms(4) by (rule mult_left_mono)
    then show ?thesis by (simp add: v mult.commute)
  qed
  show "Min (set (lambda_grid lambda_max ratio nlam)) = ratio * lambda_max"
    by (rule Min_eqI) (simp_all add: low mem)
  show "length (lambda_grid lambda_max ratio nlam) = nlam"
    by (simp add: lambda_grid_def)
  obtain m where m: "nlam = Suc m" using assms(3) by (cases nlam) simp_all
  show "last (lambda_grid lambda_max ratio nlam) = ratio * lambda_max"
    using lastv unfolding lambda_grid_def m by (simp add: mult.commute)
qed

text \<open>
  Claim C2, as amended. When the caller supplies no \<open>\<lambda>\<close> sequence, the entry point hands
  \<^verbatim>\<open>lambda.min.ratio\<close> (a ratio of one or more is rejected) and \<open>nlambda\<close> unchanged to
  the core as \<open>flmin\<close> and \<open>nlam\<close>; the default ratio is \<open>10\<^sup>-\<^sup>2\<close> when \<open>n < p\<close> and \<open>10\<^sup>-\<^sup>4\<close>
  otherwise, so also when \<open>n = p\<close>, with \<open>n\<close> and \<open>p\<close> the rows and columns of \<open>x\<close>. For
  a positive ratio, two or more grid values and \<open>\<lambda>\<^sub>m\<^sub>a\<^sub>x \<ge> 0\<close>, the grid of the spec for this
  call has \<open>nlambda\<close> values, and the smallest of them is \<^verbatim>\<open>lambda.min.ratio\<close> times
  \<open>\<lambda>\<^sub>m\<^sub>a\<^sub>x\<close>.
\<close>

theorem default_lambda_min_ratio:
  assumes "snd (glmnet_prepare s a) = Inr args" and "g_lambda a = None"
  shows "x_dim (g_x a) = Some (a_nobs args, a_nvars args)
       \<and> a_flmin args = (case g_lambda_min_ratio a of
                           Some r \<Rightarrow> r
                         | None \<Rightarrow> if a_nobs args < a_nvars args then 1 / 100 else 1 / 10000)
       \<and> a_flmin args < 1
       \<and> a_nlam args = g_nlambda a
       \<and> c_flmin (elnet_core_call args y) = a_flmin args
       \<and> c_nlam (elnet_core_call args y) = g_nlambda a
       \<and> c_flmin (fishnet_core_call args off) = a_flmin args
       \<and> c_nlam (fishnet_core_call args off) = g_nlambda a
       \<and> (0 < a_flmin args \<and> 2 \<le> g_nlambda a \<and> 0 \<le> lambda_max \<longrightarrow>
            length (core_grid lambda_max (elnet_core_call args y)) = g_nlambda a
            \<and> Min (set (core_grid lambda_max (elnet_core_call args y)))
                = (case g_lambda_min_ratio a of
                     Some r \<Rightarrow> r
                   | None \<Rightarrow> if a_nobs args < a_nvars args then 1 / 100 else 1 / 10000)
                  * lambda_max
            \<and> length (core_grid lambda_max (fishnet_core_call args off)) = g_nlambda a
            \<and> Min (set (core_grid lambda_max (fishnet_core_call args off)))
                = (case g_lambda_min_ratio a of
                     Some r \<Rightarrow> r
                   | None \<Rightarrow> if a_nobs args < a_nvars args then 1 / 100 else 1 / 10000)
                  * lambda_max)"
proof -
  from prepare_facts(1,6)[OF assms(1)] assms(2)
  have d: "x_dim (g_x a) = Some (a_nobs args, a_nvars args)"
    and f: "a_flmin args = (case g_lambda_min_ratio a of
                           Some r \<Rightarrow> r
                         | None \<Rightarrow> if a_nobs args < a_nvars args then 1 / 100 else 1 / 10000)"
    and l: "a_flmin args < 1" and n: "a_nlam args = g_nlambda a"
    by (auto simp: lambda_args_def lambda_min_ratio_default_def Let_def
        dest: check_dims_Inr split: option.splits if_splits)
  have c: "c_flmin (elnet_core_call args y) = a_flmin args"
    "c_nlam (elnet_core_call args y) = g_nlambda a"
    "c_flmin (fishnet_core_call args off) = a_flmin args"
    "c_nlam (fishnet_core_call args off) = g_nlambda a"
    by (simp_all add: elnet_core_call_def fishnet_core_call_def n)
  have g: "length (core_grid lambda_max (elnet_core_call args y)) = g_nlambda a
            \<and> Min (set (core_grid lambda_max (elnet_core_call args y))) = a_flmin args * lambda_max
            \<and> length (core_grid lambda_max (fishnet_core_call args off)) = g_nlambda a
            \<and> Min (set (core_grid lambda_max (fishnet_core_call args off))) = a_flmin args * lambda_max"
    if "0 < a_flmin args \<and> 2 \<le> g_nlambda a \<and> 0 \<le> lambda_max"
    using that l by (simp add: core_grid_def c lambda_grid_min)
  show ?thesis
  proof (intro conjI impI)
    show "x_dim (g_x a) = Some (a_nobs args, a_nvars args)" by (rule d)
    show "a_flmin args = (case g_lambda_min_ratio a of
                           Some r \<Rightarrow> r
                         | None \<Rightarrow> if a_nobs args < a_nvars args then 1 / 100 else 1 / 10000)"
      by (rule f)
    show "a_flmin args < 1" by (rule l)
    show "a_nlam args = g_nlambda a" by (rule n)
    show "c_flmin (elnet_core_call args y) = a_flmin args" by (rule c(1))
    show "c_nlam (elnet_core_call args y) = g_nlambda a" by (rule c(2))
    show "c_flmin (fishnet_core_call args off) = a_flmin args" by (rule c(3))
    show "c_nlam (fishnet_core_call args off) = g_nlambda a" by (rule c(4))
  next
    assume h: "0 < a_flmin args \<and> 2 \<le> g_nlambda a \<and> 0 \<le> lambda_max"
    note gh = g[OF h, unfolded f]
    from gh show "length (core_grid lambda_max (elnet_core_call args y)) = g_nlambda a"
      by (rule conjunct1)
    from gh show "Min (set (core_grid lambda_max (elnet_core_call args y)))
                = (case g_lambda_min_ratio a of
                     Some r \<Rightarrow> r
                   | None \<Rightarrow> if a_nobs args < a_nvars args then 1 / 100 else 1 / 10000)
                  * lambda_max"
      by (elim conjE)
    from gh show "length (core_grid lambda_max (fishnet_core_call args off)) = g_nlambda a"
      by (elim conjE)
    from gh show "Min (set (core_grid lambda_max (fishnet_core_call args off)))
                = (case g_lambda_min_ratio a of
                     Some r \<Rightarrow> r
                   | None \<Rightarrow> if a_nobs args < a_nvars args then 1 / 100 else 1 / 10000)
                  * lambda_max"
      by (elim conjE)
  qed
qed

text \<open>The example call has \<open>n = p = 2\<close>, no ratio and \<open>nlambda = 3\<close>; with \<open>\<lambda>\<^sub>m\<^sub>a\<^sub>x = 4\<close> the
  smallest grid value is \<open>4 \<cdot> 10\<^sup>-\<^sup>4\<close>.\<close>

theorem default_lambda_min_ratio_witness:
  "snd (glmnet_prepare ex_state (ex_in 2 False Poisson))
     = Inr (projr (snd (glmnet_prepare ex_state (ex_in 2 False Poisson))))
   \<and> g_lambda (ex_in 2 False Poisson) = None
   \<and> a_nobs (projr (snd (glmnet_prepare ex_state (ex_in 2 False Poisson)))) = 2
   \<and> a_nvars (projr (snd (glmnet_prepare ex_state (ex_in 2 False Poisson)))) = 2
   \<and> a_flmin (projr (snd (glmnet_prepare ex_state (ex_in 2 False Poisson)))) = 1 / 10000
   \<and> (2::nat) \<le> g_nlambda (ex_in 2 False Poisson)
   \<and> Min (set (core_grid 4
               (fishnet_core_call (projr (snd (glmnet_prepare ex_state (ex_in 2 False Poisson))))
                  (a_y (projr (snd (glmnet_prepare ex_state (ex_in 2 False Poisson))))))))
       = 4 / 10000"
proof -
  let ?r = "projr (snd (glmnet_prepare ex_state (ex_in 2 False Poisson)))"
  have h: "snd (glmnet_prepare ex_state (ex_in 2 False Poisson)) = Inr ?r"
    by code_simp
  have l: "g_lambda (ex_in 2 False Poisson) = None" and m: "g_lambda_min_ratio (ex_in 2 False Poisson) = None"
    and k: "g_nlambda (ex_in 2 False Poisson) = 3"
    by code_simp+
  have d: "x_dim (g_x (ex_in 2 False Poisson)) = Some (2, 2)"
    by code_simp
  note t = default_lambda_min_ratio[OF h l, where lambda_max = 4 and off = "a_y ?r"]
  from t d m
  have 1: "a_nobs ?r = 2 \<and> a_nvars ?r = 2 \<and> a_flmin ?r = 1 / 10000"
    by simp
  with t d m k
  have 2: "Min (set (core_grid 4 (fishnet_core_call ?r (a_y ?r)))) = 4 / 10000"
    by simp
  from h l 1 2 k show ?thesis by simp
qed

text \<open>Claim C2 as stated fails for \<open>n = p\<close>: the claim gives \<open>10\<^sup>-\<^sup>2\<close> whenever \<open>n > p\<close>
  does not hold, the code gives \<open>10\<^sup>-\<^sup>4\<close>.\<close>

theorem default_ratio_counterexample:
  "\<not> (2::nat) > 2
   \<and> lambda_min_ratio_default 2 2 = 1 / 10000
   \<and> x_dim (g_x (ex_in 2 False Poisson)) = Some (2, 2)
   \<and> g_lambda_min_ratio (ex_in 2 False Poisson) = None
   \<and> map_sum id a_flmin (snd (glmnet_prepare ex_state (ex_in 2 False Poisson))) = Inr (1 / 10000)"
  by code_simp

lemma sorted_wrt_ge_rev_sort: "sorted_wrt (\<ge>) (rev (sort (xs :: real list)))"
proof -
  have "sorted_wrt (\<lambda>x y. y \<ge> x) (sort xs)"
    using sorted_sort[of xs] by (simp add: sorted_wrt_rev)
  then show ?thesis by (simp add: sorted_wrt_rev)
qed

lemma sorted_wrt_gt_rev_sort: "sorted_wrt (>) (rev (sort (xs :: real list))) \<longleftrightarrow> distinct xs"
proof -
  have "sorted_wrt (>) (rev (sort xs)) \<longleftrightarrow> sorted_wrt (<) (sort xs)"
    by (simp add: sorted_wrt_rev)
  also have "\<dots> \<longleftrightarrow> distinct xs"
    by (simp add: strict_sorted_iff)
  finally show ?thesis .
qed

text \<open>
  Claim C3, as amended. For a caller-supplied \<open>\<lambda>\<close> sequence the entry point rejects
  negative values and hands the core the supplied values in non-increasing order
  (\<^verbatim>\<open>rev(sort(lambda))\<close>, a permutation of them), with \<open>nlam\<close> their number and
  \<open>flmin = 1\<close>; the order is strictly decreasing exactly when the supplied values are
  distinct.
\<close>

theorem supplied_lambda_sorted:
  assumes "g_lambda a = Some lam"
  shows "((\<exists>v \<in> set lam. v < 0) \<longrightarrow>
            isl (snd (glmnet_prepare s a))
            \<and> lambda_args (g_lambda_min_ratio a) (g_lambda a) (g_nlambda a) nobs nvars
                = Inl (Stop ''lambdas should be non-negative''))
       \<and> (snd (glmnet_prepare s a) = Inr args \<longrightarrow>
            a_ulam args = rev (sort lam)
            \<and> mset (a_ulam args) = mset lam
            \<and> sorted_wrt (\<ge>) (a_ulam args)
            \<and> (sorted_wrt (>) (a_ulam args) \<longleftrightarrow> distinct lam)
            \<and> a_nlam args = length lam \<and> a_flmin args = 1
            \<and> c_ulam (elnet_core_call args y) = a_ulam args
            \<and> c_nlam (elnet_core_call args y) = length lam
            \<and> c_flmin (elnet_core_call args y) = 1
            \<and> c_ulam (fishnet_core_call args off) = a_ulam args
            \<and> c_nlam (fishnet_core_call args off) = length lam
            \<and> c_flmin (fishnet_core_call args off) = 1)"
proof (intro conjI impI)
  assume neg: "\<exists>v \<in> set lam. v < 0"
  show "lambda_args (g_lambda_min_ratio a) (g_lambda a) (g_nlambda a) nobs nvars
          = Inl (Stop ''lambdas should be non-negative'')"
    using neg assms by (simp add: lambda_args_def)
  show "isl (snd (glmnet_prepare s a))"
  proof (cases "snd (glmnet_prepare s a)")
    case (Inl e)
    then show ?thesis by simp
  next
    case (Inr args')
    from prepare_facts(6)[OF Inr] neg assms show ?thesis
      by (simp add: lambda_args_def)
  qed
next
  assume ok: "snd (glmnet_prepare s a) = Inr args"
  from prepare_facts(6)[OF ok] assms
  have u: "a_ulam args = rev (sort lam)" and n: "a_nlam args = length lam"
    and f: "a_flmin args = 1"
    by (auto simp: lambda_args_def split: if_splits)
  show "a_ulam args = rev (sort lam)" by (rule u)
  show "mset (a_ulam args) = mset lam" by (simp add: u)
  show "sorted_wrt (\<ge>) (a_ulam args)" unfolding u by (rule sorted_wrt_ge_rev_sort)
  show "sorted_wrt (>) (a_ulam args) \<longleftrightarrow> distinct lam" unfolding u by (rule sorted_wrt_gt_rev_sort)
  show "a_nlam args = length lam" by (rule n)
  show "a_flmin args = 1" by (rule f)
  show "c_ulam (elnet_core_call args y) = a_ulam args"
    and "c_nlam (elnet_core_call args y) = length lam"
    and "c_flmin (elnet_core_call args y) = 1"
    by (simp_all add: elnet_core_call_def n f)
  show "c_ulam (fishnet_core_call args off) = a_ulam args"
    and "c_nlam (fishnet_core_call args off) = length lam"
    and "c_flmin (fishnet_core_call args off) = 1"
    by (simp_all add: fishnet_core_call_def n f)
qed

theorem supplied_lambda_witness:
  "g_lambda (ex_in_lambda [1, 3, 2]) = Some [1, 3, 2]
   \<and> snd (glmnet_prepare ex_state (ex_in_lambda [1, 3, 2]))
       = Inr (projr (snd (glmnet_prepare ex_state (ex_in_lambda [1, 3, 2]))))
   \<and> a_ulam (projr (snd (glmnet_prepare ex_state (ex_in_lambda [1, 3, 2])))) = [3, 2, 1]
   \<and> sorted_wrt (>) (a_ulam (projr (snd (glmnet_prepare ex_state (ex_in_lambda [1, 3, 2])))))
   \<and> g_lambda (ex_in_lambda [1, - 3, 2]) = Some [1, - 3, 2]
   \<and> isl (snd (glmnet_prepare ex_state (ex_in_lambda [1, - 3, 2])))"
proof -
  let ?r = "projr (snd (glmnet_prepare ex_state (ex_in_lambda [1, 3, 2])))"
  have g: "g_lambda (ex_in_lambda [1, 3, 2]) = Some [1, 3, 2]"
    and g': "g_lambda (ex_in_lambda [1, - 3, 2]) = Some [1, - 3, 2]"
    by code_simp+
  have h: "snd (glmnet_prepare ex_state (ex_in_lambda [1, 3, 2])) = Inr ?r"
    by code_simp
  have v: "rev (sort [1, 3, 2 :: real]) = [3, 2, 1]" and d: "distinct [1, 3, 2 :: real]"
    and n: "\<exists>v \<in> set [1, - 3, 2 :: real]. v < 0"
    by code_simp+
  from supplied_lambda_sorted[OF g, of ex_state _ _ ?r] h v d
  have 1: "a_ulam ?r = [3, 2, 1]" and 2: "sorted_wrt (>) (a_ulam ?r)"
    by simp_all
  from supplied_lambda_sorted[OF g', of ex_state] n
  have 3: "isl (snd (glmnet_prepare ex_state (ex_in_lambda [1, - 3, 2])))"
    by blast
  from g h 1 2 g' 3 show ?thesis by simp
qed

text \<open>Claim C3 as stated fails for a sequence with a repeated value: it is kept,
  and the grid is not strictly decreasing.\<close>

theorem duplicate_lambda_counterexample:
  "g_lambda (ex_in_lambda [1, 1]) = Some [1, 1]
   \<and> map_sum id a_ulam (snd (glmnet_prepare ex_state (ex_in_lambda [1, 1]))) = Inr [1, 1]
   \<and> \<not> sorted_wrt (>) [1 :: real, 1]"
  by code_simp

section \<open>The computation mode of a Gaussian fit\<close>

text \<open>
  Claim C4, as amended. The default mode is covariance when \<open>p < 500\<close> and naive
  otherwise, whether \<open>x\<close> is dense or sparse; the caller may override it; \<^verbatim>\<open>elnet\<close>
  passes the mode as \<open>ka = 1\<close> (covariance) or \<open>ka = 2\<close> (naive) to the sparse core when
  \<open>x\<close> is sparse and to the dense core otherwise.
\<close>

theorem gaussian_mode_default:
  assumes "snd (glmnet_prepare s a) = Inr args"
  shows "x_dim (g_x a) = Some (a_nobs args, a_nvars args)
       \<and> a_type_gaussian args
           = (case g_type_gaussian a of
                Some t \<Rightarrow> t
              | None \<Rightarrow> if a_nvars args < 500 then Covariance else Naive)
       \<and> a_is_sparse args = x_sparse (g_x a)
       \<and> c_ka (elnet_core_call args y) = (case a_type_gaussian args of Covariance \<Rightarrow> 1 | Naive \<Rightarrow> 2)
       \<and> elnet_core_fit E P args
           = (if x_sparse (g_x a)
              then spelnet_exp E P (elnet_core_call args (minus_offset (dbl E) (a_y args) (a_offset args)))
              else elnet_exp E P (elnet_core_call args (minus_offset (dbl E) (a_y args) (a_offset args))))"
  using prepare_facts(1,7,8)[OF assms]
  by (auto simp: type_gaussian_default_def elnet_core_call_def elnet_core_fit_def
      dest: check_dims_Inr split: option.splits type_gaussian.splits)

theorem gaussian_mode_witness:
  "snd (glmnet_prepare ex_state (ex_in 4 False Gaussian))
     = Inr (projr (snd (glmnet_prepare ex_state (ex_in 4 False Gaussian))))
   \<and> a_nvars (projr (snd (glmnet_prepare ex_state (ex_in 4 False Gaussian)))) = 2
   \<and> a_type_gaussian (projr (snd (glmnet_prepare ex_state (ex_in 4 False Gaussian)))) = Covariance
   \<and> c_ka (elnet_core_call (projr (snd (glmnet_prepare ex_state (ex_in 4 False Gaussian))))
             \<lparr>dat = [], dm = None\<rparr>) = 1"
proof -
  let ?r = "projr (snd (glmnet_prepare ex_state (ex_in 4 False Gaussian)))"
  have h: "snd (glmnet_prepare ex_state (ex_in 4 False Gaussian)) = Inr ?r"
    by code_simp
  have d: "x_dim (g_x (ex_in 4 False Gaussian)) = Some (4, 2)"
    and t: "g_type_gaussian (ex_in 4 False Gaussian) = None"
    by code_simp+
  from gaussian_mode_default[OF h, of "\<lparr>dat = [], dm = None\<rparr>"] d t
  have "a_nvars ?r = 2 \<and> a_type_gaussian ?r = Covariance
        \<and> c_ka (elnet_core_call ?r \<lparr>dat = [], dm = None\<rparr>) = 1"
    by simp
  with h show ?thesis by simp
qed

text \<open>Claim C4 as stated fails for a sparse \<open>x\<close> with fewer than 500 columns: the
  default is covariance, and \<open>ka = 1\<close> goes to the sparse core.\<close>

theorem sparse_covariance_counterexample:
  "x_sparse (g_x (ex_in 4 True Gaussian))
   \<and> g_type_gaussian (ex_in 4 True Gaussian) = None
   \<and> map_sum id a_type_gaussian (snd (glmnet_prepare ex_state (ex_in 4 True Gaussian)))
       = Inr Covariance
   \<and> map_sum id a_is_sparse (snd (glmnet_prepare ex_state (ex_in 4 True Gaussian))) = Inr True
   \<and> map_sum id (\<lambda>args. c_ka (elnet_core_call args (a_y args)))
       (snd (glmnet_prepare ex_state (ex_in 4 True Gaussian))) = Inr 1"
  by code_simp

section \<open>The mixing parameter\<close>

lemma clamp_alpha_range: "snd (clamp_alpha al) = Inr r \<Longrightarrow> 0 \<le> r \<and> r \<le> 1"
  by (cases al) (auto split: if_splits)

lemma generic_snd_alpha:
  assumes "snd (clamp_alpha al) = snd (clamp_alpha al')"
  shows "snd (glmnet_generic s (a\<lparr>g_alpha := al\<rparr>) c) = snd (glmnet_generic s (a\<lparr>g_alpha := al'\<rparr>) c)"
proof -
  obtain w r where 1: "clamp_alpha al = (w, r)" by (cases "clamp_alpha al")
  obtain w' r' where 2: "clamp_alpha al' = (w', r')" by (cases "clamp_alpha al'")
  from assms 1 2 have r: "r' = r" by simp
  show ?thesis
    unfolding glmnet_generic_def
    by (simp add: 1 2 r Let_def split: sum.split prod.split)
qed

lemma prepare_snd_alpha:
  assumes "snd (clamp_alpha al) = snd (clamp_alpha al')"
  shows "snd (glmnet_prepare s (a\<lparr>g_alpha := al\<rparr>)) = snd (glmnet_prepare s (a\<lparr>g_alpha := al'\<rparr>))"
proof -
  have c: "glmnet_checks s (a\<lparr>g_alpha := al\<rparr>) = glmnet_checks s (a\<lparr>g_alpha := al'\<rparr>)"
    by (simp add: glmnet_checks_def cong: sum.case_cong prod.case_cong if_cong)
  show ?thesis
    unfolding glmnet_prepare_def c
    by (auto split: prod.splits sum.splits simp: generic_snd_alpha[OF assms])
qed

lemma guard_warns:
  "warns (warn w s) = warns s @ w"
  "warns (trace_guard t s) = warns s"
  "warns (fdev_guard cl s) = warns s"
  by (simp_all add: warn_def trace_guard_def fdev_guard_def Let_def)

lemma prepare_warns:
  assumes "glmnet_prepare s a = (s', Inr args)"
  shows "set (fst (clamp_alpha (g_alpha a))) \<subseteq> set (warns s')"
proof -
  from assms have "snd (glmnet_prepare s a) = Inr args" by simp
  then obtain s1 s'' y nc where
    g: "glmnet_generic s1 a (a_nobs args, a_nvars args, y, nc, a_weights args) = (s'', Inr args)"
    and p: "glmnet_prepare s a = (s'', Inr args)"
    by (rule glmnet_prepare_Inr)
  from p assms have "s'' = s'" by simp
  with glmnet_generic_Inr(15)[OF g] show ?thesis
    by (auto simp: Let_def guard_warns)
qed

lemma run_after_prepare:
  assumes "glmnet_prepare s a = (s', Inr args)" and "g_family a \<noteq> Cox"
  shows "glmnet_run E s a
           = (case family_fit E (parms s') args of
                (w, Inl e) \<Rightarrow> (warn w s', Inl e)
              | (w, Inr fit) \<Rightarrow> (warn w s', Inr (glmnet_finish E a (a_nobs args) fit)))"
proof -
  from assms(1) have "snd (glmnet_prepare s a) = Inr args" by simp
  then obtain s1 s'' y nc where
    c: "glmnet_checks s a = (s1, Inr (a_nobs args, a_nvars args, y, nc, a_weights args))"
    and g: "glmnet_generic s1 a (a_nobs args, a_nvars args, y, nc, a_weights args) = (s'', Inr args)"
    and p: "glmnet_prepare s a = (s'', Inr args)"
    by (rule glmnet_prepare_Inr)
  from p assms(1) have s: "s'' = s'" by simp
  show ?thesis
    using c g s assms(2) by (simp add: glmnet_run_def)
qed

lemma run_warns:
  assumes "glmnet_prepare s a = (s', Inr args)" and "g_family a \<noteq> Cox"
  shows "set (warns s') \<subseteq> set (warns (fst (glmnet_run E s a)))"
  unfolding run_after_prepare[OF assms]
  by (auto simp: guard_warns split: prod.split sum.split)

lemma glmnet_warnings:
  "fst (snd (glmnet E P a)) = warns (fst (glmnet_run E \<lparr>parms = P, on_exit = None, warns = []\<rparr> a))"
  by (simp add: glmnet_def split: prod.split)

text \<open>
  Claim C9. An \<open>alpha\<close> above one is replaced by one and an \<open>alpha\<close> below zero by zero,
  each with a warning, and the call then goes on exactly as with the replaced value.
  Whenever the arguments of a family function are prepared, their \<open>alpha\<close> is the
  \<open>alpha\<close> of the call after this replacement (the value itself when it lies in
  \<open>[0, 1]\<close>), so it lies in \<open>[0, 1]\<close>, and it is what the core receives as \<open>parm\<close>; the
  warning is among the warnings raised so far. For a family other than Cox the
  family function is called with these very arguments, and the warnings of the
  preparation are among the warnings of the call.
\<close>

theorem alpha_clamped:
  "(rd_gt al 1 = Some True \<longrightarrow>
      clamp_alpha al = ([''alpha >1; set to 1''], Inr 1)
      \<and> snd (glmnet_prepare s (a\<lparr>g_alpha := al\<rparr>)) = snd (glmnet_prepare s (a\<lparr>g_alpha := Fin 1\<rparr>)))
   \<and> (rd_lt al 0 = Some True \<longrightarrow>
      clamp_alpha al = ([''alpha<0; set to 0''], Inr 0)
      \<and> snd (glmnet_prepare s (a\<lparr>g_alpha := al\<rparr>)) = snd (glmnet_prepare s (a\<lparr>g_alpha := Fin 0\<rparr>)))
   \<and> (glmnet_prepare s a = (s', Inr args) \<longrightarrow>
      snd (clamp_alpha (g_alpha a)) = Inr (a_alpha args)
      \<and> (rd_gt (g_alpha a) 1 = Some True \<longrightarrow>
           a_alpha args = 1 \<and> ''alpha >1; set to 1'' \<in> set (warns s'))
      \<and> (rd_lt (g_alpha a) 0 = Some True \<longrightarrow>
           a_alpha args = 0 \<and> ''alpha<0; set to 0'' \<in> set (warns s'))
      \<and> (g_alpha a = Fin r \<and> 0 \<le> r \<and> r \<le> 1 \<longrightarrow> a_alpha args = r)
      \<and> 0 \<le> a_alpha args \<and> a_alpha args \<le> 1
      \<and> c_parm (elnet_core_call args y) = a_alpha args
      \<and> c_parm (fishnet_core_call args off) = a_alpha args
      \<and> (g_family a \<noteq> Cox \<longrightarrow>
           glmnet_run E s a
             = (case family_fit E (parms s') args of
                  (w, Inl e) \<Rightarrow> (warn w s', Inl e)
                | (w, Inr fit) \<Rightarrow> (warn w s', Inr (glmnet_finish E a (a_nobs args) fit)))
           \<and> set (warns s') \<subseteq> set (warns (fst (glmnet_run E s a)))))
   \<and> fst (snd (glmnet E P a))
       = warns (fst (glmnet_run E \<lparr>parms = P, on_exit = None, warns = []\<rparr> a))"
proof (intro conjI impI)
  assume g: "rd_gt al 1 = Some True"
  then show 1: "clamp_alpha al = ([''alpha >1; set to 1''], Inr 1)"
    by (cases al) auto
  show "snd (glmnet_prepare s (a\<lparr>g_alpha := al\<rparr>)) = snd (glmnet_prepare s (a\<lparr>g_alpha := Fin 1\<rparr>))"
    by (rule prepare_snd_alpha) (simp add: 1)
next
  assume l: "rd_lt al 0 = Some True"
  then show 0: "clamp_alpha al = ([''alpha<0; set to 0''], Inr 0)"
    by (cases al) auto
  show "snd (glmnet_prepare s (a\<lparr>g_alpha := al\<rparr>)) = snd (glmnet_prepare s (a\<lparr>g_alpha := Fin 0\<rparr>))"
    by (rule prepare_snd_alpha) (simp add: 0)
next
  assume p: "glmnet_prepare s a = (s', Inr args)"
  then have ok: "snd (glmnet_prepare s a) = Inr args" by simp
  note cl = prepare_facts(4)[OF ok]
  note ws = prepare_warns[OF p]
  show "snd (clamp_alpha (g_alpha a)) = Inr (a_alpha args)" by (rule cl)
  from clamp_alpha_range[OF cl]
  show "0 \<le> a_alpha args" and "a_alpha args \<le> 1" by simp_all
  show "c_parm (elnet_core_call args y) = a_alpha args"
    by (simp add: elnet_core_call_def)
  show "c_parm (fishnet_core_call args off) = a_alpha args"
    by (simp add: fishnet_core_call_def)
  {
    assume "rd_gt (g_alpha a) 1 = Some True"
    then have "clamp_alpha (g_alpha a) = ([''alpha >1; set to 1''], Inr 1)"
      by (cases "g_alpha a") auto
    with cl ws show "a_alpha args = 1" and "''alpha >1; set to 1'' \<in> set (warns s')"
      by simp_all
  }
  {
    assume "rd_lt (g_alpha a) 0 = Some True"
    then have "clamp_alpha (g_alpha a) = ([''alpha<0; set to 0''], Inr 0)"
      by (cases "g_alpha a") auto
    with cl ws show "a_alpha args = 0" and "''alpha<0; set to 0'' \<in> set (warns s')"
      by simp_all
  }
  {
    assume "g_alpha a = Fin r \<and> 0 \<le> r \<and> r \<le> 1"
    with cl show "a_alpha args = r" by simp
  }
  {
    assume f: "g_family a \<noteq> Cox"
    show "glmnet_run E s a
             = (case family_fit E (parms s') args of
                  (w, Inl e) \<Rightarrow> (warn w s', Inl e)
                | (w, Inr fit) \<Rightarrow> (warn w s', Inr (glmnet_finish E a (a_nobs args) fit)))"
      using p f by (rule run_after_prepare)
    show "set (warns s') \<subseteq> set (warns (fst (glmnet_run E s a)))"
      using p f by (rule run_warns)
  }
next
  show "fst (snd (glmnet E P a))
       = warns (fst (glmnet_run E \<lparr>parms = P, on_exit = None, warns = []\<rparr> a))"
    by (rule glmnet_warnings)
qed

theorem alpha_clamped_witness:
  "rd_gt (Fin 3) 1 = Some True
   \<and> clamp_alpha (Fin 3) = ([''alpha >1; set to 1''], Inr 1)
   \<and> rd_lt MInf 0 = Some True
   \<and> clamp_alpha MInf = ([''alpha<0; set to 0''], Inr 0)
   \<and> g_alpha (ex_in_alpha (Fin 3)) = Fin 3
   \<and> snd (glmnet_prepare ex_state (ex_in_alpha (Fin 3)))
       = Inr (projr (snd (glmnet_prepare ex_state (ex_in_alpha (Fin 3)))))
   \<and> a_alpha (projr (snd (glmnet_prepare ex_state (ex_in_alpha (Fin 3))))) = 1
   \<and> ''alpha >1; set to 1'' \<in> set (fst (snd (glmnet (ex_env 2 0) ex_parms (ex_in_alpha (Fin 3)))))
   \<and> a_alpha (projr (snd (glmnet_prepare ex_state (ex_in_alpha MInf)))) = 0
   \<and> ''alpha<0; set to 0'' \<in> set (fst (snd (glmnet (ex_env 2 0) ex_parms (ex_in_alpha MInf))))
   \<and> a_alpha (projr (snd (glmnet_prepare ex_state (ex_in_alpha (Fin (1 / 2)))))) = 1 / 2"
proof -
  let ?E = "ex_env 2 0"
  let ?a = "ex_in_alpha (Fin 3)" and ?b = "ex_in_alpha MInf" and ?c = "ex_in_alpha (Fin (1 / 2))"
  let ?ra = "projr (snd (glmnet_prepare ex_state ?a))" and ?sa = "fst (glmnet_prepare ex_state ?a)"
  let ?rb = "projr (snd (glmnet_prepare ex_state ?b))" and ?sb = "fst (glmnet_prepare ex_state ?b)"
  let ?rc = "projr (snd (glmnet_prepare ex_state ?c))" and ?sc = "fst (glmnet_prepare ex_state ?c)"
  note t = alpha_clamped
  have g: "rd_gt (Fin 3) 1 = Some True" and l: "rd_lt MInf 0 = Some True"
    by simp_all
  have ga: "g_alpha ?a = Fin 3" and gb: "g_alpha ?b = MInf"
    and gc: "g_alpha ?c = Fin (1 / 2) \<and> (0::real) \<le> 1 / 2 \<and> (1::real) / 2 \<le> 1"
    by (simp_all add: ex_in_alpha_def)
  have fa: "g_family ?a \<noteq> Cox" and fb: "g_family ?b \<noteq> Cox"
    by code_simp+
  have ha: "snd (glmnet_prepare ex_state ?a) = Inr ?ra"
    and hb: "snd (glmnet_prepare ex_state ?b) = Inr ?rb"
    and hc: "snd (glmnet_prepare ex_state ?c) = Inr ?rc"
    by code_simp+
  then have pa: "glmnet_prepare ex_state ?a = (?sa, Inr ?ra)"
    and pb: "glmnet_prepare ex_state ?b = (?sb, Inr ?rb)"
    and pc: "glmnet_prepare ex_state ?c = (?sc, Inr ?rc)"
    by (simp_all add: prod_eq_iff)
  from t[where al = "Fin 3"] g
  have 1: "clamp_alpha (Fin 3) = ([''alpha >1; set to 1''], Inr 1)" by blast
  from t[where al = MInf] l
  have 2: "clamp_alpha MInf = ([''alpha<0; set to 0''], Inr 0)" by blast
  have ra: "rd_gt (g_alpha ?a) 1 = Some True" and rb: "rd_lt (g_alpha ?b) 0 = Some True"
    by (simp_all add: ex_in_alpha_def)
  note ta = t[where s = ex_state and a = ?a and s' = ?sa and args = ?ra and E = ?E and P = ex_parms]
  note tb = t[where s = ex_state and a = ?b and s' = ?sb and args = ?rb and E = ?E and P = ex_parms]
  from ta pa ra have 3: "a_alpha ?ra = 1" by blast
  from ta pa ra have wa1: "''alpha >1; set to 1'' \<in> set (warns ?sa)" by blast
  from ta pa fa have wa2: "set (warns ?sa) \<subseteq> set (warns (fst (glmnet_run ?E ex_state ?a)))"
    by blast
  from ta have wa3: "fst (snd (glmnet ?E ex_parms ?a)) = warns (fst (glmnet_run ?E ex_state ?a))"
    by (simp add: ex_state_def)
  from wa1 wa2 wa3 have 4: "''alpha >1; set to 1'' \<in> set (fst (snd (glmnet ?E ex_parms ?a)))"
    by auto
  from tb pb rb have 5: "a_alpha ?rb = 0" by blast
  from tb pb rb have wb1: "''alpha<0; set to 0'' \<in> set (warns ?sb)" by blast
  from tb pb fb have wb2: "set (warns ?sb) \<subseteq> set (warns (fst (glmnet_run ?E ex_state ?b)))"
    by blast
  from tb have wb3: "fst (snd (glmnet ?E ex_parms ?b)) = warns (fst (glmnet_run ?E ex_state ?b))"
    by (simp add: ex_state_def)
  from wb1 wb2 wb3 have 6: "''alpha<0; set to 0'' \<in> set (fst (snd (glmnet ?E ex_parms ?b)))"
    by auto
  from t[where s = ex_state and a = ?c and s' = ?sc and args = ?rc and r = "1 / 2"] pc gc
  have 7: "a_alpha ?rc = 1 / 2" by blast
  from g 1 l 2 ga ha 3 4 5 6 7 show ?thesis by blast
qed

section \<open>The box limits\<close>

lemma r_subscript_seq_nat:
  assumes "1 \<le> n" and "n \<le> length xs"
  shows "r_subscript na xs (r_seq (int n)) = Inr (take n xs)"
  using r_subscript_seq[of "int n" xs na] assms by simp

lemma limits_length_Inr:
  assumes "limits_length msg n xs = Inr ys" and "2 \<le> n"
  shows "ys = spread n xs" and "length ys = n"
proof -
  show "ys = spread n xs"
  proof (cases "length xs < n")
    case True
    with assms show ?thesis
      by (auto simp: limits_length_def spread_def split: if_splits)
  next
    case False
    with assms have "ys = take n xs"
      by (simp add: limits_length_def r_subscript_seq_nat)
    with False assms(2) show ?thesis by (simp add: spread_def)
  qed
  then show "length ys = n"
    using assms by (auto simp: limits_length_def spread_def split: if_splits)
qed

lemma r_any_False: "r_any bs = Some False \<longleftrightarrow> (\<forall>b \<in> set bs. b = Some False)"
  by (auto simp: r_any_def) (metis (full_types) not_Some_eq)

lemma list_all_spread:
  assumes "list_all P xs"
  shows "list_all P (spread n xs)"
proof (cases "length xs = 1")
  case True
  then have "hd xs \<in> set xs" by (cases xs) simp_all
  with assms True show ?thesis by (simp add: spread_def list_all_iff)
next
  case False
  with assms show ?thesis by (auto simp: spread_def list_all_iff dest: in_set_takeD)
qed

lemma lower_is_fin: "rd_gt v 0 = Some False \<Longrightarrow> is_fin (if v = MInf then Fin b else v)"
  by (cases v) auto

lemma upper_is_fin: "rd_lt v 0 = Some False \<Longrightarrow> is_fin (if v = PInf then Fin b else v)"
  by (cases v) auto

lemma check_limits_Inr:
  assumes "check_limits ip n lower upper = Inr cl" and "2 \<le> n"
  shows "fst cl = spread n (map (\<lambda>v. if v = MInf then Fin (- big ip) else v) lower)"
    and "snd cl = spread n (map (\<lambda>v. if v = PInf then Fin (big ip) else v) upper)"
    and "length (fst cl) = n" and "length (snd cl) = n"
    and "list_all is_fin (fst cl)" and "list_all is_fin (snd cl)"
proof -
  from assms(1) have lo_ok: "r_any (map (\<lambda>v. rd_gt v 0) lower) = Some False"
    and up_ok: "r_any (map (\<lambda>v. rd_lt v 0) upper) = Some False"
    and lo: "limits_length ''Require length 1 or nvars lower.limits'' n
               (map (\<lambda>v. if v = MInf then Fin (- big ip) else v) lower) = Inr (fst cl)"
    and up: "limits_length ''Require length 1 or nvars upper.limits'' n
               (map (\<lambda>v. if v = PInf then Fin (big ip) else v) upper) = Inr (snd cl)"
    by (auto simp: check_limits_def split: option.splits bool.splits sum.splits)
  from limits_length_Inr[OF lo assms(2)]
  show 1: "fst cl = spread n (map (\<lambda>v. if v = MInf then Fin (- big ip) else v) lower)"
    and "length (fst cl) = n" by simp_all
  from limits_length_Inr[OF up assms(2)]
  show 2: "snd cl = spread n (map (\<lambda>v. if v = PInf then Fin (big ip) else v) upper)"
    and "length (snd cl) = n" by simp_all
  have "\<forall>v \<in> set lower. rd_gt v 0 = Some False"
    using lo_ok by (simp add: r_any_False)
  then have "\<forall>v \<in> set lower. is_fin (if v = MInf then Fin (- big ip) else v)"
    using lower_is_fin by blast
  then have "list_all is_fin (map (\<lambda>v. if v = MInf then Fin (- big ip) else v) lower)"
    unfolding list_all_iff set_map by blast
  then show "list_all is_fin (fst cl)" unfolding 1 by (rule list_all_spread)
  have "\<forall>v \<in> set upper. rd_lt v 0 = Some False"
    using up_ok by (simp add: r_any_False)
  then have "\<forall>v \<in> set upper. is_fin (if v = PInf then Fin (big ip) else v)"
    using upper_is_fin by blast
  then have "list_all is_fin (map (\<lambda>v. if v = PInf then Fin (big ip) else v) upper)"
    unfolding list_all_iff set_map by blast
  then show "list_all is_fin (snd cl)" unfolding 2 by (rule list_all_spread)
qed

text \<open>
  Claim C10. Whenever the arguments of a family function are prepared, \<open>p\<close> is the
  number of columns of \<open>x\<close> (two or more), every lower limit \<^verbatim>\<open>-Inf\<close> has been replaced
  by \<open>-big\<close> and every upper limit \<^verbatim>\<open>Inf\<close> by \<open>big\<close>, a single limit has been repeated
  for all \<open>p\<close> coordinates, and the two vectors of bounds that the core receives have
  length \<open>p\<close> and finite entries.
\<close>

theorem box_limits_finite:
  assumes "snd (glmnet_prepare s a) = Inr args"
  shows "x_dim (g_x a) = Some (a_nobs args, a_nvars args) \<and> 2 \<le> a_nvars args
       \<and> fst (a_cl args)
           = spread (a_nvars args)
               (map (\<lambda>v. if v = MInf then Fin (- big (parms s)) else v) (g_lower_limits a))
       \<and> snd (a_cl args)
           = spread (a_nvars args)
               (map (\<lambda>v. if v = PInf then Fin (big (parms s)) else v) (g_upper_limits a))
       \<and> length (fst (a_cl args)) = a_nvars args \<and> length (snd (a_cl args)) = a_nvars args
       \<and> list_all is_fin (fst (a_cl args)) \<and> list_all is_fin (snd (a_cl args))
       \<and> c_cl (elnet_core_call args y) = a_cl args
       \<and> c_cl (fishnet_core_call args off) = a_cl args"
proof -
  from prepare_facts(1)[OF assms]
  have d: "x_dim (g_x a) = Some (a_nobs args, a_nvars args)" and n: "2 \<le> a_nvars args"
    by (auto dest: check_dims_Inr)
  from check_limits_Inr[OF prepare_facts(5)[OF assms] n] d n
  show ?thesis
    by (simp add: elnet_core_call_def fishnet_core_call_def)
qed

theorem box_limits_witness:
  "snd (glmnet_prepare ex_state (ex_in_limits [MInf] [Fin 2, PInf, Fin 7]))
     = Inr (projr (snd (glmnet_prepare ex_state (ex_in_limits [MInf] [Fin 2, PInf, Fin 7]))))
   \<and> x_dim (g_x (ex_in_limits [MInf] [Fin 2, PInf, Fin 7])) = Some (4, 2)
   \<and> a_nvars (projr (snd (glmnet_prepare ex_state (ex_in_limits [MInf] [Fin 2, PInf, Fin 7])))) = 2
   \<and> a_cl (projr (snd (glmnet_prepare ex_state (ex_in_limits [MInf] [Fin 2, PInf, Fin 7]))))
       = ([Fin (- (99 * 10 ^ 34)), Fin (- (99 * 10 ^ 34))], [Fin 2, Fin (99 * 10 ^ 34)])"
proof -
  let ?a = "ex_in_limits [MInf] [Fin 2, PInf, Fin 7]"
  let ?r = "projr (snd (glmnet_prepare ex_state ?a))"
  have h: "snd (glmnet_prepare ex_state ?a) = Inr ?r"
    by code_simp
  have d: "x_dim (g_x ?a) = Some (4, 2)" and b: "big (parms ex_state) = 99 * 10 ^ 34"
    and l: "g_lower_limits ?a = [MInf]" and u: "g_upper_limits ?a = [Fin 2, PInf, Fin 7]"
    by code_simp+
  from box_limits_finite[OF h] d have v: "a_nvars ?r = 2"
    by simp
  from box_limits_finite[OF h]
  have "fst (a_cl ?r) = [Fin (- (99 * 10 ^ 34)), Fin (- (99 * 10 ^ 34))]
        \<and> snd (a_cl ?r) = [Fin 2, Fin (99 * 10 ^ 34)]"
    unfolding v b l u by (simp add: spread_def numeral_2_eq_2)
  then have "a_cl ?r = ([Fin (- (99 * 10 ^ 34)), Fin (- (99 * 10 ^ 34))], [Fin 2, Fin (99 * 10 ^ 34)])"
    by (cases "a_cl ?r") simp
  with h d v show ?thesis by simp
qed

section \<open>The process-wide settings around a call\<close>

lemma checks_state:
  "parms (fst (glmnet_checks s a)) = parms s \<and> on_exit (fst (glmnet_checks s a)) = on_exit s"
  by (simp add: glmnet_checks_def warn_def split: sum.split prod.split)

lemma run_on_exit_warn: "run_on_exit (warn w s) = run_on_exit s"
  by (simp add: run_on_exit_def warn_def split: option.split)

lemma trace_guard_off:
  "g_trace_it a = 0 \<or> itrace (parms s) \<noteq> 0 \<Longrightarrow> trace_guard (g_trace_it a) s = s"
  by (auto simp: trace_guard_def)

lemma fdev_guard_exit: "on_exit s = None \<Longrightarrow> run_on_exit (fdev_guard cl s) = parms s"
  by (simp add: fdev_guard_def run_on_exit_def Let_def)

lemma generic_exit:
  assumes "on_exit s = None" and "g_trace_it a = 0 \<or> itrace (parms s) \<noteq> 0"
  shows "run_on_exit (fst (glmnet_generic s a c)) = parms s"
proof -
  obtain nobs nvars y0 nc weights where c: "c = (nobs, nvars, y0, nc, weights)"
    by (cases c)
  obtain w r where al: "clamp_alpha (g_alpha a) = (w, r)"
    by (cases "clamp_alpha (g_alpha a)")
  have p: "parms (warn w s) = parms s" and o: "on_exit (warn w s) = None"
    using assms(1) by (simp_all add: warn_def)
  have t: "trace_guard (g_trace_it a) (warn w s) = warn w s"
    using assms(2) p by (intro trace_guard_off) simp
  have e0: "run_on_exit s = parms s"
    using assms(1) by (simp add: run_on_exit_def)
  have e2: "\<And>cl. run_on_exit (fdev_guard cl (warn w s)) = parms s"
    using fdev_guard_exit[OF o] p by simp
  show ?thesis
    unfolding c glmnet_generic_def
    by (simp add: al t e0 e2 run_on_exit_warn Let_def split: sum.split prod.split)
qed

lemma run_exit:
  assumes "on_exit s = None" and "g_trace_it a = 0 \<or> itrace (parms s) \<noteq> 0"
  shows "run_on_exit (fst (glmnet_run E s a)) = parms s"
proof -
  obtain s1 r where c: "glmnet_checks s a = (s1, r)" by (cases "glmnet_checks s a")
  with checks_state[of s a] have s1: "parms s1 = parms s" "on_exit s1 = on_exit s" by simp_all
  have g: "\<And>c. run_on_exit (fst (glmnet_generic s1 a c)) = parms s"
    using generic_exit[of s1 a] assms s1 by simp
  note w = run_on_exit_warn
  have e: "run_on_exit s1 = parms s"
    using assms(1) s1 by (simp add: run_on_exit_def)
  show ?thesis
  proof (cases r)
    case (Inl err)
    with c e show ?thesis by (simp add: glmnet_run_def)
  next
    case (Inr v)
    obtain nobs nvars y nc weights where v: "v = (nobs, nvars, y, nc, weights)"
      by (cases v)
    obtain s2 q where q: "glmnet_generic s1 a (nobs, nvars, y, nc, weights) = (s2, q)"
      by (cases "glmnet_generic s1 a (nobs, nvars, y, nc, weights)")
    with g[of "(nobs, nvars, y, nc, weights)"] have s2: "run_on_exit s2 = parms s" by simp
    show ?thesis
      using c Inr v q s2 e
      by (simp add: glmnet_run_def w split: prod.split sum.split)
  qed
qed

lemma settings_restored_without_trace:
  assumes "g_trace_it a = 0 \<or> itrace P \<noteq> 0"
  shows "fst (glmnet E P a) = P"
  using run_exit[of "\<lparr>parms = P, on_exit = None, warns = []\<rparr>" a E] assms
  by (cases "glmnet_run E \<lparr>parms = P, on_exit = None, warns = []\<rparr> a") (simp add: glmnet_def)

lemma fit_runs_without_fdev:
  assumes "glmnet_prepare s a = (s', Inr args)"
    and "\<exists>v \<in> set (fst (a_cl args) @ snd (a_cl args)). v = Fin 0"
  shows "fdev (parms s') = 0"
proof -
  from assms(1) have "snd (glmnet_prepare s a) = Inr args" by simp
  then obtain s1 s'' y nc where
    g: "glmnet_generic s1 a (a_nobs args, a_nvars args, y, nc, a_weights args) = (s'', Inr args)"
    and p: "glmnet_prepare s a = (s'', Inr args)"
    by (rule glmnet_prepare_Inr)
  from p assms(1) have "s'' = s'" by simp
  with glmnet_generic_Inr(15)[OF g] assms(2) show ?thesis
    by (auto simp: Let_def fdev_guard_def warn_def)
qed

text \<open>
  Claim C5, evaluated where the code departs from it. The call has an upper limit of
  zero, a nonzero process-wide \<open>fdev\<close>, tracing off in the settings and \<^verbatim>\<open>trace.it = 1\<close>.
  The fit runs with \<open>fdev = 0\<close>, and \<open>fdev\<close> is restored on return; but the
  \<^verbatim>\<open>on.exit\<close> that restores \<open>fdev\<close> replaces the one registered to reset \<open>itrace\<close>, so the
  settings on return have \<open>itrace = 1\<close> and differ from those at entry. Without
  \<^verbatim>\<open>trace.it\<close> the settings are restored, as \<open>settings_restored_without_trace\<close> shows.
\<close>

theorem trace_setting_left_on:
  "list_ex (\<lambda>v. v = Fin 0) (g_lower_limits ex_in_trace @ g_upper_limits ex_in_trace)
   \<and> fdev ex_parms \<noteq> 0 \<and> itrace ex_parms = 0 \<and> g_trace_it ex_in_trace = 1
   \<and> fdev (parms (fst (glmnet_prepare ex_state ex_in_trace))) = 0
   \<and> itrace (fst (glmnet (ex_env 2 0) ex_parms ex_in_trace)) = 1
   \<and> fst (glmnet (ex_env 2 0) ex_parms ex_in_trace) = ex_parms\<lparr>itrace := 1\<rparr>"
  by code_simp

section \<open>Errors in the shape of the input\<close>

lemma length_concat_const:
  "length (concat (map (\<lambda>l. map (f l) ys) lev)) = length lev * length ys"
  by (induction lev) simp_all

lemma nrowy_indicator:
  assumes "length ys = 1 \<longrightarrow> length lev = 1"
  shows "nrowy (drop_dims (indicator_matrix lev ys)) = length ys"
  using assms
  by (auto simp: nrowy_def drop_dims_def indicator_matrix_def length_concat_const)

lemma recode_response_rows:
  assumes "snd (recode_response ys) = Inr (y, nc)"
  shows "nrowy (drop_dims y) = length ys"
proof -
  have "length ys = 1 \<longrightarrow> length (sort (remdups ys)) = 1"
    by (cases ys) auto
  then have "nrowy (drop_dims (indicator_matrix (sort (remdups ys)) ys)) = length ys"
    by (rule nrowy_indicator)
  moreover from assms have "y = indicator_matrix (sort (remdups ys)) ys"
    by (auto simp: recode_response_def Let_def split: list.splits if_splits)
  ultimately show ?thesis by simp
qed

lemma checks_fail_run:
  assumes "isl (snd (glmnet_checks s a))"
  shows "glmnet_run E s a = (fst (glmnet_checks s a), Inl (projl (snd (glmnet_checks s a))))"
  using assms
  by (cases "glmnet_checks s a"; cases "snd (glmnet_checks s a)") (auto simp: glmnet_run_def)

lemma prepare_fail_run:
  assumes "isl (snd (glmnet_prepare s a))" and "g_family a \<noteq> Cox"
  shows "glmnet_run E s a = (fst (glmnet_prepare s a), Inl (projl (snd (glmnet_prepare s a))))"
proof -
  obtain s1 r where c: "glmnet_checks s a = (s1, r)" by (cases "glmnet_checks s a")
  show ?thesis
  proof (cases r)
    case (Inl e)
    with c show ?thesis by (simp add: glmnet_run_def glmnet_prepare_def)
  next
    case (Inr v)
    obtain nobs nvars y nc weights where v: "v = (nobs, nvars, y, nc, weights)" by (cases v)
    obtain s2 q where g: "glmnet_generic s1 a (nobs, nvars, y, nc, weights) = (s2, q)"
      by (cases "glmnet_generic s1 a (nobs, nvars, y, nc, weights)")
    from assms(1) c Inr v g obtain e where q: "q = Inl e"
      by (cases q) (simp_all add: glmnet_prepare_def)
    from c Inr v g q assms(2) show ?thesis
      by (simp add: glmnet_run_def glmnet_prepare_def)
  qed
qed

text \<open>
  Claim C7, as amended. A missing value (\<^verbatim>\<open>NA\<close> or \<^verbatim>\<open>NaN\<close>) in \<open>x\<close> and weights whose
  number differs from the rows of \<open>x\<close> fail the checks made for every family, and the
  call ends with that error; a response whose length differs from the rows of \<open>x\<close>
  fails the preparation of the arguments, and (for a family other than Cox) the call
  ends with that error; no family function is entered in either case. Non-positive
  weights and infinite entries of \<open>x\<close> are not checked.
\<close>

theorem input_shape_errors:
  "(has_na (g_x a) \<longrightarrow> isl (snd (glmnet_checks s a)))
   \<and> (g_weights a = Some w \<and> x_dim (g_x a) = Some (n, p) \<and> length w \<noteq> n \<longrightarrow>
        isl (snd (glmnet_checks s a)))
   \<and> (isl (snd (glmnet_checks s a)) \<longrightarrow>
        glmnet_run E s a = (fst (glmnet_checks s a), Inl (projl (snd (glmnet_checks s a)))))
   \<and> (x_dim (g_x a) = Some (n, p) \<and> length (g_y a) \<noteq> n \<longrightarrow> isl (snd (glmnet_prepare s a)))
   \<and> (isl (snd (glmnet_prepare s a)) \<and> g_family a \<noteq> Cox \<longrightarrow>
        glmnet_run E s a = (fst (glmnet_prepare s a), Inl (projl (snd (glmnet_prepare s a)))))"
proof (intro conjI impI)
  assume "has_na (g_x a)"
  then show "isl (snd (glmnet_checks s a))"
    by (auto simp: glmnet_checks_def split: sum.split prod.split)
next
  assume "g_weights a = Some w \<and> x_dim (g_x a) = Some (n, p) \<and> length w \<noteq> n"
  then show "isl (snd (glmnet_checks s a))"
    by (auto simp: glmnet_checks_def check_dims_def check_weights_def split: sum.split prod.split)
next
  assume "isl (snd (glmnet_checks s a))"
  then show "glmnet_run E s a = (fst (glmnet_checks s a), Inl (projl (snd (glmnet_checks s a))))"
    by (rule checks_fail_run)
next
  assume d: "x_dim (g_x a) = Some (n, p) \<and> length (g_y a) \<noteq> n"
  show "isl (snd (glmnet_prepare s a))"
  proof (cases "snd (glmnet_prepare s a)")
    case (Inl e)
    then show ?thesis by simp
  next
    case (Inr r)
    then obtain s1 s' y nc where
      c: "glmnet_checks s a = (s1, Inr (a_nobs r, a_nvars r, y, nc, a_weights r))"
      and g: "glmnet_generic s1 a (a_nobs r, a_nvars r, y, nc, a_weights r) = (s', Inr r)"
      by (rule glmnet_prepare_Inr)
    from glmnet_checks_Inr(1)[OF c] d have n: "a_nobs r = n"
      by (auto dest: check_dims_Inr)
    from glmnet_generic_Inr(2)[OF g] have "nrowy (drop_dims y) = a_nobs r"
      by (auto simp: check_nrowy_def split: if_splits)
    with recode_response_rows[OF glmnet_checks_Inr(2)[OF c]] n d show ?thesis
      by simp
  qed
next
  assume "isl (snd (glmnet_prepare s a)) \<and> g_family a \<noteq> Cox"
  then show "glmnet_run E s a = (fst (glmnet_prepare s a), Inl (projl (snd (glmnet_prepare s a))))"
    by (intro prepare_fail_run) simp_all
qed

theorem input_shape_errors_witness:
  "has_na (g_x ex_in_na)
   \<and> snd (glmnet_run (ex_env 2 0) ex_state ex_in_na)
       = Inl (Stop ''x has missing values; consider using makeX() to impute them'')
   \<and> g_weights ((ex_in 4 False Poisson)\<lparr>g_weights := Some [1, 1]\<rparr>) = Some [1, 1]
   \<and> snd (glmnet_run (ex_env 2 0) ex_state ((ex_in 4 False Poisson)\<lparr>g_weights := Some [1, 1]\<rparr>))
       = Inl (Stop ''number of elements in weights not equal to the number of rows of x'')
   \<and> length (g_y ((ex_in 4 False Poisson)\<lparr>g_y := [5, 5]\<rparr>)) \<noteq> 4
   \<and> snd (glmnet_run (ex_env 2 0) ex_state ((ex_in 4 False Poisson)\<lparr>g_y := [5, 5]\<rparr>))
       = Inl (Stop ''number of observations in y not equal to the number of rows of x'')"
proof -
  let ?E = "ex_env 2 0"
  let ?w = "(ex_in 4 False Poisson)\<lparr>g_weights := Some [1, 1]\<rparr>"
  let ?y = "(ex_in 4 False Poisson)\<lparr>g_y := [5, 5]\<rparr>"
  note t = input_shape_errors
  have na: "has_na (g_x ex_in_na)" by code_simp
  from t[where a = ex_in_na and s = ex_state and E = ?E] na
  have 1: "glmnet_run ?E ex_state ex_in_na
             = (fst (glmnet_checks ex_state ex_in_na), Inl (projl (snd (glmnet_checks ex_state ex_in_na))))"
    by blast
  have v1: "projl (snd (glmnet_checks ex_state ex_in_na))
              = Stop ''x has missing values; consider using makeX() to impute them''"
    by code_simp
  have w: "g_weights ?w = Some [1, 1] \<and> x_dim (g_x ?w) = Some (4, 2) \<and> length [1, 1 :: real] \<noteq> 4"
    by code_simp
  from t[where a = ?w and s = ex_state and E = ?E and w = "[1, 1]" and n = 4 and p = 2] w
  have 2: "glmnet_run ?E ex_state ?w
             = (fst (glmnet_checks ex_state ?w), Inl (projl (snd (glmnet_checks ex_state ?w))))"
    by blast
  have v2: "projl (snd (glmnet_checks ex_state ?w))
              = Stop ''number of elements in weights not equal to the number of rows of x''"
    by code_simp
  have y: "x_dim (g_x ?y) = Some (4, 2) \<and> length (g_y ?y) \<noteq> 4" and f: "g_family ?y \<noteq> Cox"
    by code_simp+
  from t[where a = ?y and s = ex_state and E = ?E and n = 4 and p = 2] y f
  have 3: "glmnet_run ?E ex_state ?y
             = (fst (glmnet_prepare ex_state ?y), Inl (projl (snd (glmnet_prepare ex_state ?y))))"
    by blast
  have v3: "projl (snd (glmnet_prepare ex_state ?y))
              = Stop ''number of observations in y not equal to the number of rows of x''"
    by code_simp
  from na w y show ?thesis
    unfolding 1 2 3 by (simp add: v1 v2 v3)
qed

text \<open>Claim C7 as stated fails: with weights \<open>0\<close> and \<open>-1\<close> and entries \<^verbatim>\<open>Inf\<close> and
  \<^verbatim>\<open>-Inf\<close> in \<open>x\<close>, the call reaches the core and returns its fit.\<close>

theorem unchecked_input_counterexample:
  "g_weights ex_in_bad = Some [0, - 1, 1, 1]
   \<and> x_data (g_x ex_in_bad) = [Fin 0, PInf, Fin 2, MInf, Fin 4, Fin 5, Fin 6, Fin 7]
   \<and> map_sum id npasses (snd (snd (glmnet (ex_env 2 0) ex_parms ex_in_bad))) = Inr 7"
  by code_simp

section \<open>The reported \<open>\<lambda>\<close> values\<close>

text \<open>
  Line 527: for a family other than Cox, the \<open>\<lambda>\<close> values that the family function
  returns are passed through \<^verbatim>\<open>fix.lam\<close> when the caller gave no \<open>\<lambda>\<close> sequence, and are
  reported as they are when the caller gave one.
\<close>

lemma glmnet_run_lambda:
  assumes "glmnet_prepare s a = (s', Inr args)" and "g_family a \<noteq> Cox"
    and "snd (family_fit E (parms s') args) = Inr fit"
  shows "map_sum id fit_lambda (snd (glmnet_run E s a))
           = Inr (if g_lambda a = None then fix_lam E (fit_lambda fit) else fit_lambda fit)"
proof -
  from assms(1) have "snd (glmnet_prepare s a) = Inr args" by simp
  then obtain s1 s'' y nc where
    c: "glmnet_checks s a = (s1, Inr (a_nobs args, a_nvars args, y, nc, a_weights args))"
    and g: "glmnet_generic s1 a (a_nobs args, a_nvars args, y, nc, a_weights args) = (s'', Inr args)"
    and p: "glmnet_prepare s a = (s'', Inr args)"
    by (rule glmnet_prepare_Inr)
  from p assms(1) have s: "s'' = s'" by simp
  obtain w where f: "family_fit E (parms s') args = (w, Inr fit)"
    using assms(3) by (cases "family_fit E (parms s') args") simp
  show ?thesis
    using c g s f assms(2)
    by (simp add: glmnet_run_def glmnet_finish_def)
qed

end
